theory Spec2Isabelle
  imports Complex_Main
begin

section \<open>JavaScript values and outcomes\<close>

text \<open>
  The component verified here is \<open>AudioTrack\<close> of
  \<open>react/features/base/media/components/web/AudioTrack.js\<close>, together with
  \<open>toggleSpatialAudio\<close> of \<open>react/features/video-layout/actions.js\<close>.

  JavaScript numbers are idealised as real numbers, with \<open>NaN\<close> and the two
  infinities kept apart (the rounding of doubles is not modelled).
\<close>

datatype js_error = TypeError | ReferenceError

datatype jsnum = NaN | PosInfinity | NegInfinity | Num real

datatype jsval = JUndefined | JNull | JBoolean bool | JNumber jsnum | JString string

text \<open>
  A method either runs to its end or throws. A throw keeps every mutation made before it,
  so both outcomes carry the state.
\<close>

datatype 'a outcome = Done 'a | Threw js_error 'a

fun andThen :: "'a outcome \<Rightarrow> ('a \<Rightarrow> 'a outcome) \<Rightarrow> 'a outcome" where
  "andThen (Done s) f = f s"
| "andThen (Threw e s) f = Threw e s"

fun state_of :: "'a outcome \<Rightarrow> 'a" where
  "state_of (Done s) = s"
| "state_of (Threw e s) = s"

fun thrown :: "'a outcome \<Rightarrow> js_error option" where
  "thrown (Done s) = None"
| "thrown (Threw e s) = Some e"

section \<open>The Web Audio graph\<close>

type_synonym node_id = nat

text \<open>
  A panner node: its position and orientation (read and written either through the
  \<open>positionX\<close>... AudioParams or through the legacy \<open>setPosition\<close> and
  \<open>setOrientation\<close>), the parameters \<open>setupSpatial\<close> assigns, and the expando
  property \<open>scale\<close>, which is undefined until \<open>setupSpatial\<close> sets it.
\<close>

record panner_node =
  positionX :: real
  positionY :: real
  positionZ :: real
  orientationX :: real
  orientationY :: real
  orientationZ :: real
  panningModel :: string
  distanceModel :: string
  refDistance :: real
  maxDistance :: real
  rolloffFactor :: real
  coneInnerAngle :: real
  coneOuterAngle :: real
  coneOuterGain :: real
  scale :: "real option"

datatype audio_node =
    DestinationNode
  | MediaStreamSource
  | MediaElementSource
  | GainNode real
  | PannerNode panner_node

record audio_listener =
  forward :: "real \<times> real \<times> real"
  up :: "real \<times> real \<times> real"
  listenerPosition :: "real \<times> real \<times> real"

datatype context_state = Suspended | Running

text \<open>
  What the browser provides: whether there is an \<open>AudioContext\<close> constructor at all,
  whether a new context starts suspended (autoplay policy), and whether panner nodes have
  the \<open>positionX\<close>, \<open>positionY\<close>, \<open>positionZ\<close> AudioParams.
\<close>

record browser =
  has_AudioContext :: bool
  starts_suspended :: bool
  panner_position_params :: bool

record audio_context =
  state :: context_state
  resume_calls :: nat
  listener :: audio_listener
  destination :: node_id

section \<open>The page: DOM, globals and the component\<close>

text \<open>
  An element of class \<open>audio-track\<close> is seen by \<open>getIndex\<close> only through its
  \<open>firstChild\<close>: absent, a node without an \<open>id\<close> (a text node), or an element with
  its \<open>id\<close>.
\<close>

datatype dom_node = TextNode | Element string

type_synonym track_item = "dom_node option"

datatype capture_api = MozCaptureStream | CaptureStream | NoCapture

record audio_element =
  el_id :: string
  el_muted :: bool
  el_volume :: real
  play_calls :: nat
  capture :: capture_api
  stream_active :: bool

text \<open>
  The redux representation of a track; \<open>jitsiTrack\<close> names the library track, whose
  \<open>attach\<close> and \<open>detach\<close> record the audio elements it plays into.
\<close>

record track =
  jitsiTrack :: "string option"
  participantId :: string

record props =
  audioTrack :: "track option"
  autoPlay :: bool
  muted :: jsval
  volume :: jsval

text \<open>
  The globals of the page. \<open>window.audioTracks\<close> is the live collection
  \<open>document.getElementsByClassName('audio-track')\<close> once it has been assigned, so it is
  given by a flag and the document's current elements of that class.

  Audio nodes are objects held by reference: \<open>nodes\<close> is the store from node
  identities to nodes, \<open>next_id\<close> the next unused identity, and \<open>edges\<close> the
  connections, each held once (the Web Audio API ignores a second connection between the
  same two nodes). \<open>attachments\<close> is what the library tracks' \<open>attach\<close> and
  \<open>detach\<close> maintain; \<open>notifications\<close> is what has been dispatched to the store.
\<close>

record window =
  the_browser :: browser
  the_context :: "audio_context option"
  spatialAudio :: "bool option"
  audioTracks_assigned :: bool
  document_audio_tracks :: "track_item list"
  nodes :: "node_id \<Rightarrow> audio_node option"
  next_id :: node_id
  edges :: "(node_id \<times> node_id) list"
  attachments :: "(string \<times> string) list"
  notifications :: "string list"

definition audioTracks :: "window \<Rightarrow> track_item list option" where
  "audioTracks w = (if audioTracks_assigned w then Some (document_audio_tracks w) else None)"

definition create_node :: "audio_node \<Rightarrow> window \<Rightarrow> node_id \<times> window" where
  "create_node n w =
     (next_id w, w\<lparr> nodes := (nodes w)(next_id w := Some n), next_id := next_id w + 1 \<rparr>)"

definition default_panner :: panner_node where
  "default_panner =
     \<lparr> positionX = 0, positionY = 0, positionZ = 0,
       orientationX = 1, orientationY = 0, orientationZ = 0,
       panningModel = ''equalpower'', distanceModel = ''inverse'',
       refDistance = 1, maxDistance = 10000, rolloffFactor = 1,
       coneInnerAngle = 360, coneOuterAngle = 360, coneOuterGain = 0,
       scale = None \<rparr>"

definition connect :: "node_id \<Rightarrow> node_id \<Rightarrow> window \<Rightarrow> window" where
  "connect a b w = w\<lparr> edges := List.insert (a, b) (edges w) \<rparr>"

text \<open>\<open>node.disconnect()\<close> without arguments removes every outgoing connection of the node.\<close>

definition disconnect :: "node_id \<Rightarrow> window \<Rightarrow> window" where
  "disconnect a w = w\<lparr> edges := filter (\<lambda>e. fst e \<noteq> a) (edges w) \<rparr>"

definition gain_value :: "window \<Rightarrow> node_id \<Rightarrow> real option" where
  "gain_value w g = (case nodes w g of Some (GainNode v) \<Rightarrow> Some v | _ \<Rightarrow> None)"

definition panner_of :: "window \<Rightarrow> node_id \<Rightarrow> panner_node option" where
  "panner_of w p = (case nodes w p of Some (PannerNode pn) \<Rightarrow> Some pn | _ \<Rightarrow> None)"

text \<open>The instance fields of the component; each is undefined until it is assigned.\<close>

record AudioTrack =
  the_props :: props
  ref :: "audio_element option"
  source :: "node_id option"
  gainNode :: "node_id option"
  pannerNode :: "node_id option"
  trackIdx :: "nat option"
  trackLen :: "nat option"
  spatialAudio_local :: "bool option"

record sys =
  win :: window
  this :: AudioTrack

section \<open>Azimuth computation\<close>

text \<open>
  \<open>x.toFixed(2)\<close>: the decimal with two fraction digits nearest to \<open>x\<close>, a tie going
  away from zero. The result is a string; it is modelled by the number it denotes, which
  is what \<open>xPos * scale\<close> reads back.
\<close>

definition toFixed2 :: "real \<Rightarrow> real" where
  "toFixed2 x =
     (if x < 0 then - (of_int \<lfloor>(- x) * 100 + 1 / 2\<rfloor> / 100)
      else of_int \<lfloor>x * 100 + 1 / 2\<rfloor> / 100)"

text \<open>
  \<open>calcLocation\<close> reads \<open>this._trackIdx\<close> and \<open>this._trackLen\<close>. When either is
  undefined, every intermediate value is \<open>NaN\<close> and both results are \<open>"NaN"\<close>.
\<close>

definition calcLocation :: "AudioTrack \<Rightarrow> jsnum \<times> jsnum" where
  "calcLocation t =
     (case (trackIdx t, trackLen t) of
        (Some idx, Some len) \<Rightarrow>
          (let place = real idx + 1;
               angle = 2 / (real len + 1);
               pos = (place * angle) - 1;
               xPos = toFixed2 (sin (pi * (pos / 2)));
               yPos = toFixed2 (cos (pi * (pos / 2)))
           in (Num xPos, Num yPos))
      | _ \<Rightarrow> (NaN, NaN))"

section \<open>Index of the component's element in the collection\<close>

text \<open>
  The body of the \<open>try\<close> block of \<open>getIndex\<close>: the loop over the collection, the
  counter \<open>i\<close> running along. \<open>item.firstChild.id\<close> throws a TypeError when the item
  has no first child, and so does \<open>this._ref.id\<close> when there is no element. After the
  loop, \<open>console.warn('Index not found!', item.firstChild.id)\<close> names the loop variable
  outside its scope, which is a ReferenceError (the page defines no global \<open>item\<close>).
\<close>

fun getIndex_loop :: "track_item list \<Rightarrow> audio_element option \<Rightarrow> nat \<Rightarrow> js_error + nat" where
  "getIndex_loop [] r i = Inl ReferenceError"
| "getIndex_loop (item # rest) r i =
     (case item of
        None \<Rightarrow> Inl TypeError
      | Some child \<Rightarrow>
          (case r of
             None \<Rightarrow> Inl TypeError
           | Some el \<Rightarrow>
               if child = Element (el_id el) then Inr i
               else getIndex_loop rest r (i + 1)))"

text \<open>
  \<open>getIndex\<close>: \<open>window.audioTracks.length\<close> is read outside the \<open>try\<close>, so an
  unassigned \<open>window.audioTracks\<close> throws; whatever the \<open>try\<close> block throws is caught
  and answered with \<open>0\<close>.
\<close>

definition getIndex :: "window \<Rightarrow> AudioTrack \<Rightarrow> js_error + nat" where
  "getIndex w t =
     (case audioTracks w of
        None \<Rightarrow> Inl TypeError
      | Some tracks \<Rightarrow>
          if length tracks > 1 then
            (case getIndex_loop tracks (ref t) 0 of
               Inr i \<Rightarrow> Inr i
             | Inl err \<Rightarrow> Inr 0)
          else Inr 0)"

section \<open>Methods of the component\<close>

text \<open>
  \<open>_attachTrack\<close> and \<open>_detachTrack\<close> call \<open>attach\<close> and \<open>detach\<close> of the library
  track with the audio element; what the library keeps is modelled by the pairs of track
  and element in \<open>attachments\<close>, and the two library calls are taken to return without
  throwing.
\<close>

definition attachTrack :: "track option \<Rightarrow> sys \<Rightarrow> sys" where
  "attachTrack tr s =
     (case tr of
        None \<Rightarrow> s
      | Some t \<Rightarrow>
          (case jitsiTrack t of
             None \<Rightarrow> s
           | Some j \<Rightarrow>
               (case ref (this s) of
                  None \<Rightarrow> s
                | Some el \<Rightarrow>
                    s\<lparr> win := (win s)\<lparr> attachments :=
                          List.insert (j, el_id el) (attachments (win s)) \<rparr> \<rparr>)))"

definition detachTrack :: "track option \<Rightarrow> sys \<Rightarrow> sys" where
  "detachTrack tr s =
     (case (ref (this s), tr) of
        (Some el, Some t) \<Rightarrow>
          (case jitsiTrack t of
             None \<Rightarrow> s
           | Some j \<Rightarrow>
               s\<lparr> win := (win s)\<lparr> attachments :=
                     removeAll (j, el_id el) (attachments (win s)) \<rparr> \<rparr>)
      | _ \<Rightarrow> s)"

text \<open>
  \<open>initContext\<close>: creates \<open>window.context\<close> when there is none (a TypeError where the
  browser has no constructor), then initialises \<open>window.spatialAudio\<close> to \<open>false\<close>
  when it is undefined.
\<close>

definition initContext :: "sys \<Rightarrow> sys outcome" where
  "initContext s =
     (let w = win s;
          init_flag = (\<lambda>w. if spatialAudio w = None then w\<lparr> spatialAudio := Some False \<rparr> else w)
      in case the_context w of
           Some c \<Rightarrow> Done (s\<lparr> win := init_flag w \<rparr>)
         | None \<Rightarrow>
             if has_AudioContext (the_browser w) then
               (let (d, w1) = create_node DestinationNode w;
                    c = \<lparr> state = (if starts_suspended (the_browser w) then Suspended else Running),
                          resume_calls = 0,
                          listener = \<lparr> forward = (0, 0, -1), up = (0, 1, 0),
                                       listenerPosition = (0, 0, 0) \<rparr>,
                          destination = d \<rparr>
                in Done (s\<lparr> win := init_flag (w1\<lparr> the_context := Some c \<rparr>) \<rparr>))
             else Threw TypeError s)"

text \<open>
  \<open>setupSpatial\<close>. The test \<open>typeof listener === 'undefined'\<close> reads a global
  \<open>listener\<close> that nothing defines, so the listener is set up on every call; the values
  are the same through the AudioParams and through \<open>setOrientation\<close> and
  \<open>setPosition\<close>, and so is the panner's orientation. The nodes are created and
  configured, then connected source to panner to gain to destination, and the global flag
  is copied into \<open>_spatialAudio\<close>.
\<close>

definition setupSpatial :: "sys \<Rightarrow> sys outcome" where
  "setupSpatial s =
     (case the_context (win s) of
        None \<Rightarrow> Threw TypeError s
      | Some c \<Rightarrow>
          (let l = (listener c)\<lparr> forward := (0, 0, -1), up := (0, 1, 0),
                                  listenerPosition := (0, 0, 1) \<rparr>;
               w0 = (win s)\<lparr> the_context := Some (c\<lparr> listener := l \<rparr>) \<rparr>;
               (g, w1) = create_node (GainNode 1) w0;
               (p, w2) = create_node (PannerNode default_panner) w1;
               pn = default_panner\<lparr> panningModel := ''HRTF'', distanceModel := ''inverse'',
                      refDistance := 1, maxDistance := 10000, rolloffFactor := 1,
                      coneInnerAngle := 360, coneOuterAngle := 0, coneOuterGain := 0,
                      scale := Some 1,
                      orientationX := 1, orientationY := 0, orientationZ := 0 \<rparr>;
               w3 = w2\<lparr> nodes := (nodes w2)(p := Some (PannerNode pn)) \<rparr>;
               t1 = (this s)\<lparr> gainNode := Some g, pannerNode := Some p \<rparr>
           in case source t1 of
                None \<Rightarrow> Threw TypeError (s\<lparr> win := w3, this := t1 \<rparr>)
              | Some src \<Rightarrow>
                  (let w4 = connect g (destination c) (connect p g (connect src p w3))
                   in Done (s\<lparr> win := w4,
                               this := t1\<lparr> spatialAudio_local := spatialAudio w4 \<rparr> \<rparr>))))"

text \<open>
  \<open>xPos * this._pannerNode.scale\<close>; the product is \<open>NaN\<close> when a factor is \<open>NaN\<close>
  or undefined, or when an infinity meets zero. Assigning \<open>NaN\<close> or an infinity to an
  AudioParam's \<open>value\<close>, or passing it to \<open>setPosition\<close>, throws a TypeError. The
  computed positions are at most \<open>1\<close> in magnitude and the code only ever sets \<open>scale\<close>
  to \<open>1\<close>, so the single-precision range is not tested for the products.
\<close>

fun times_scale :: "jsnum \<Rightarrow> real option \<Rightarrow> jsnum" where
  "times_scale (Num v) (Some sc) = Num (v * sc)"
| "times_scale PosInfinity (Some sc) =
     (if sc > 0 then PosInfinity else if sc < 0 then NegInfinity else NaN)"
| "times_scale NegInfinity (Some sc) =
     (if sc > 0 then NegInfinity else if sc < 0 then PosInfinity else NaN)"
| "times_scale NaN (Some sc) = NaN"
| "times_scale v None = NaN"

definition set_panner :: "node_id \<Rightarrow> panner_node \<Rightarrow> sys \<Rightarrow> sys" where
  "set_panner p pn s = s\<lparr> win := (win s)\<lparr> nodes := (nodes (win s))(p := Some (PannerNode pn)) \<rparr> \<rparr>"

text \<open>
  \<open>updateSpatial\<close>: with the AudioParams, \<open>positionX\<close> and \<open>positionY\<close> are
  assigned; without them, \<open>setPosition\<close> is called twice, each call with the value as
  its first argument and \<open>0, 0\<close> for the other two.
\<close>

definition updateSpatial :: "sys \<Rightarrow> sys outcome" where
  "updateSpatial s =
     (let (xPos, yPos) = calcLocation (this s)
      in case pannerNode (this s) of
           None \<Rightarrow> Threw TypeError s
         | Some p \<Rightarrow>
             (case nodes (win s) p of
                Some (PannerNode pn) \<Rightarrow>
                  (case times_scale xPos (scale pn) of
                     Num vx \<Rightarrow>
                       (let pn1 = (if panner_position_params (the_browser (win s))
                                   then pn\<lparr> positionX := vx \<rparr>
                                   else pn\<lparr> positionX := vx, positionY := 0, positionZ := 0 \<rparr>);
                            s1 = set_panner p pn1 s
                        in case times_scale yPos (scale pn1) of
                             Num vy \<Rightarrow>
                               (let pn2 = (if panner_position_params (the_browser (win s))
                                           then pn1\<lparr> positionY := vy \<rparr>
                                           else pn1\<lparr> positionX := vy, positionY := 0,
                                                     positionZ := 0 \<rparr>)
                                in Done (set_panner p pn2 s1))
                           | _ \<Rightarrow> Threw TypeError s1)
                   | _ \<Rightarrow> Threw TypeError s)
              | _ \<Rightarrow> Threw TypeError s))"

text \<open>
  \<open>switchCondition\<close>: the source is disconnected; then, by the component's own
  \<open>_spatialAudio\<close>, either the panner is disconnected and the source connected to the
  gain, or the source is connected to the panner and the panner to the gain.
\<close>

definition switchCondition :: "sys \<Rightarrow> sys outcome" where
  "switchCondition s =
     (case source (this s) of
        None \<Rightarrow> Threw TypeError s
      | Some src \<Rightarrow>
          (let s1 = s\<lparr> win := disconnect src (win s) \<rparr>
           in if spatialAudio_local (this s) = Some True then
                (case pannerNode (this s) of
                   None \<Rightarrow> Threw TypeError s1
                 | Some p \<Rightarrow>
                     (let s2 = s1\<lparr> win := disconnect p (win s1) \<rparr>
                      in case gainNode (this s) of
                           None \<Rightarrow> Threw TypeError s2
                         | Some g \<Rightarrow> Done (s2\<lparr> win := connect src g (win s2) \<rparr>)))
              else
                (case pannerNode (this s) of
                   None \<Rightarrow> Threw TypeError s1
                 | Some p \<Rightarrow>
                     (let s2 = s1\<lparr> win := connect src p (win s1) \<rparr>
                      in case gainNode (this s) of
                           None \<Rightarrow> Threw TypeError s2
                         | Some g \<Rightarrow> Done (s2\<lparr> win := connect p g (win s2) \<rparr>)))))"

text \<open>
  The \<open>value\<close> of an AudioParam is a single-precision float that must be finite: the
  assignment converts the number to the nearest single-precision value and throws a
  TypeError when that is out of range, which is the case from \<open>2^128 - 2^103\<close> on (half
  a step above the largest single-precision value), as it does for \<open>NaN\<close> and the
  infinities. The rounding itself is not modelled.
\<close>

definition fits_float :: "real \<Rightarrow> bool" where
  "fits_float x = (\<bar>x\<bar> < 2 ^ 128 - 2 ^ 103)"

text \<open>
  Assigning \<open>this._gainNode.gain.value\<close>: a TypeError when the node has no \<open>gain\<close>
  parameter, or when the value is \<open>NaN\<close>, infinite or out of the single-precision
  range.
\<close>

definition set_gain :: "node_id \<Rightarrow> jsnum \<Rightarrow> sys \<Rightarrow> sys outcome" where
  "set_gain g v s =
     (case nodes (win s) g of
        Some (GainNode old) \<Rightarrow>
          (case v of
             Num x \<Rightarrow>
               if fits_float x
               then Done (s\<lparr> win := (win s)\<lparr> nodes := (nodes (win s))(g := Some (GainNode x)) \<rparr> \<rparr>)
               else Threw TypeError s
           | _ \<Rightarrow> Threw TypeError s)
      | _ \<Rightarrow> Threw TypeError s)"

definition set_muted :: "bool \<Rightarrow> sys \<Rightarrow> sys" where
  "set_muted b s =
     (case ref (this s) of
        None \<Rightarrow> s
      | Some el \<Rightarrow> s\<lparr> this := (this s)\<lparr> ref := Some (el\<lparr> el_muted := b \<rparr>) \<rparr> \<rparr>)"

definition play :: "sys \<Rightarrow> sys" where
  "play s =
     (case ref (this s) of
        None \<Rightarrow> s
      | Some el \<Rightarrow> s\<lparr> this := (this s)\<lparr> ref := Some (el\<lparr> play_calls := play_calls el + 1 \<rparr>) \<rparr> \<rparr>)"

text \<open>
  The first part of the body of \<open>if (this._ref)\<close> in \<open>componentDidMount\<close>: capture
  the stream (a TypeError where the element has neither \<open>mozCaptureStream\<close> nor
  \<open>captureStream\<close>), create the source from the stream, or from the element itself when
  the stream is not active, assign \<open>window.audioTracks\<close> if need be, record length and
  index, and call \<open>setupSpatial\<close>.
\<close>

definition mount_setup :: "audio_element \<Rightarrow> sys \<Rightarrow> sys outcome" where
  "mount_setup el s =
     (if capture el = NoCapture then Threw TypeError s
      else
        (case the_context (win s) of
           None \<Rightarrow> Threw TypeError s
         | Some c \<Rightarrow>
             (let s1 =
                    (if stream_active el then
                       (let (src, w1) = create_node MediaStreamSource (win s)
                        in s\<lparr> win := w1, this := (this s)\<lparr> source := Some src \<rparr> \<rparr>)
                     else
                       (let el1 = el\<lparr> el_volume := 0 \<rparr>;
                            (src, w1) = create_node MediaElementSource (win s)
                        in s\<lparr> win := w1,
                              this := (this s)\<lparr> ref := Some (el1\<lparr> play_calls := play_calls el1 + 1 \<rparr>),
                                               source := Some src \<rparr> \<rparr>));
                  s2 = s1\<lparr> win := (win s1)\<lparr> audioTracks_assigned := True \<rparr> \<rparr>;
                  s3 = s2\<lparr> this := (this s2)\<lparr> trackLen :=
                           Some (length (document_audio_tracks (win s2))) \<rparr> \<rparr>
              in case getIndex (win s3) (this s3) of
                   Inl e \<Rightarrow> Threw e s3
                 | Inr i \<Rightarrow> setupSpatial (s3\<lparr> this := (this s3)\<lparr> trackIdx := Some i \<rparr> \<rparr>))))"

text \<open>
  The last part: \<open>play()\<close> under \<open>autoPlay\<close>, the gain from a \<open>volume\<close> prop of
  number type (with no test for \<open>NaN\<close> here), \<open>muted\<close> from a boolean prop.
\<close>

definition mount_props :: "sys \<Rightarrow> sys outcome" where
  "mount_props s4 =
     (let pr = the_props (this s4);
          s5 = (if autoPlay pr then play s4 else s4)
      in andThen
           (case volume pr of
              JNumber v \<Rightarrow>
                (case gainNode (this s5) of
                   None \<Rightarrow> Threw TypeError s5
                 | Some g \<Rightarrow> set_gain g v s5)
            | _ \<Rightarrow> Done s5) (\<lambda>s6.
           Done (case muted pr of
                   JBoolean b \<Rightarrow> set_muted b s6
                 | _ \<Rightarrow> s6)))"

text \<open>
  \<open>componentDidMount\<close>: attach the track, initialise the context and, when there is an
  audio element, build the graph, position the panner with \<open>updateSpatial\<close>, and apply
  the props.
\<close>

definition componentDidMount :: "sys \<Rightarrow> sys outcome" where
  "componentDidMount s0 =
     andThen (initContext (attachTrack (audioTrack (the_props (this s0))) s0)) (\<lambda>s.
       case ref (this s) of
         None \<Rightarrow> Done s
       | Some el \<Rightarrow> andThen (andThen (mount_setup el s) updateSpatial) mount_props)"

text \<open>
  \<open>componentWillUnmount\<close>: detach the track, then \<open>this._source.disconnect()\<close>, a
  TypeError when \<open>_source\<close> was never assigned.
\<close>

definition componentWillUnmount :: "sys \<Rightarrow> sys outcome" where
  "componentWillUnmount s =
     (let s1 = detachTrack (audioTrack (the_props (this s))) s
      in case source (this s1) of
           None \<Rightarrow> Threw TypeError s1
         | Some src \<Rightarrow> Done (s1\<lparr> win := disconnect src (win s1) \<rparr>))"

text \<open>
  The last part of \<open>shouldComponentUpdate\<close>: in spatial mode, look the index and the
  length up again and, when either differs from the stored one, store both and
  reposition the panner.
\<close>

definition update_position :: "sys \<Rightarrow> sys outcome" where
  "update_position s =
     (if spatialAudio (win s) = Some True then
        (case getIndex (win s) (this s) of
           Inl e \<Rightarrow> Threw e s
         | Inr nextIndex \<Rightarrow>
             (case audioTracks (win s) of
                None \<Rightarrow> Threw TypeError s
              | Some tracks \<Rightarrow>
                  (let nextLength = length tracks
                   in if trackIdx (this s) \<noteq> Some nextIndex \<or> trackLen (this s) \<noteq> Some nextLength
                      then updateSpatial (s\<lparr> this := (this s)\<lparr> trackIdx := Some nextIndex,
                                                                trackLen := Some nextLength \<rparr> \<rparr>)
                      else Done s)))
      else Done s)"

text \<open>The mode part: when the global flag differs from the component's copy, switch.\<close>

definition update_mode :: "sys \<Rightarrow> sys outcome" where
  "update_mode s =
     (if spatialAudio (win s) \<noteq> spatialAudio_local (this s) then
        andThen (switchCondition s) (\<lambda>s1.
          Done (s1\<lparr> this := (this s1)\<lparr> spatialAudio_local := spatialAudio (win s1) \<rparr> \<rparr>))
      else Done s)"

text \<open>
  The volume part: \<open>typeof nextVolume === 'number' && !isNaN(nextVolume) &&
  currentVolume !== nextVolume\<close>. The current value, read from the AudioParam, is
  finite, so an infinite next volume differs from it and is assigned.
\<close>

definition update_volume :: "jsval \<Rightarrow> node_id \<Rightarrow> real \<Rightarrow> sys \<Rightarrow> sys outcome" where
  "update_volume nextVolume g currentVolume s =
     (case nextVolume of
        JNumber NaN \<Rightarrow> Done s
      | JNumber (Num nv) \<Rightarrow> if currentVolume \<noteq> nv then set_gain g (Num nv) s else Done s
      | JNumber PosInfinity \<Rightarrow> set_gain g PosInfinity s
      | JNumber NegInfinity \<Rightarrow> set_gain g NegInfinity s
      | _ \<Rightarrow> Done s)"

text \<open>
  The muted part; the source compares \<open>currentMuted\<close> with \<open>nextVolume\<close>
  (\<open>currentMuted !== nextVolume\<close>).
\<close>

definition update_muted :: "jsval \<Rightarrow> jsval \<Rightarrow> bool \<Rightarrow> sys \<Rightarrow> sys" where
  "update_muted nextMuted nextVolume currentMuted s =
     (case nextMuted of
        JBoolean nm \<Rightarrow> if JBoolean currentMuted \<noteq> nextVolume then set_muted nm s else s
      | _ \<Rightarrow> s)"

text \<open>
  \<open>shouldComponentUpdate(nextProps)\<close>. \<open>this.props.audioTrack.participantId\<close> throws
  when the current track prop is null, and so does \<open>window.context.state\<close> without a
  context; a suspended context is asked to resume; a changed library track is re-attached;
  then, when there is an audio element, volume, muted, mode and position follow.
\<close>

definition shouldComponentUpdate :: "props \<Rightarrow> sys \<Rightarrow> sys outcome" where
  "shouldComponentUpdate nextProps s =
     (case audioTrack (the_props (this s)) of
        None \<Rightarrow> Threw TypeError s
      | Some cur \<Rightarrow>
          (case the_context (win s) of
             None \<Rightarrow> Threw TypeError s
           | Some c \<Rightarrow>
               (let s1 = (if state c = Suspended
                          then s\<lparr> win := (win s)\<lparr> the_context :=
                                  Some (c\<lparr> resume_calls := resume_calls c + 1 \<rparr>) \<rparr> \<rparr>
                          else s);
                    currentJitsiTrack = jitsiTrack cur;
                    nextJitsiTrack = (case audioTrack nextProps of
                                        None \<Rightarrow> None
                                      | Some t \<Rightarrow> jitsiTrack t);
                    s2 = (if currentJitsiTrack \<noteq> nextJitsiTrack
                          then attachTrack (audioTrack nextProps) (detachTrack (Some cur) s1)
                          else s1)
                in case ref (this s2) of
                     None \<Rightarrow> Done s2
                   | Some el \<Rightarrow>
                       (case gainNode (this s2) of
                          None \<Rightarrow> Threw TypeError s2
                        | Some g \<Rightarrow>
                            (case gain_value (win s2) g of
                               None \<Rightarrow> Threw TypeError s2
                             | Some currentVolume \<Rightarrow>
                                 andThen (update_volume (volume nextProps) g currentVolume s2) (\<lambda>s3.
                                   andThen (update_mode
                                              (update_muted (muted nextProps) (volume nextProps)
                                                 (el_muted el) s3))
                                     update_position))))))"

section \<open>The toggle action\<close>

text \<open>
  \<open>toggleSpatialAudio\<close>: negates \<open>window.spatialAudio\<close> (undefined counts as false)
  and dispatches a notification of the new state; the action it returns carries the same
  new state.
\<close>

definition toggleSpatialAudio :: "window \<Rightarrow> window" where
  "toggleSpatialAudio w =
     (let spatialState = (\<not> (spatialAudio w = Some True))
      in w\<lparr> spatialAudio := Some spatialState,
            notifications := notifications w @ [if spatialState then ''enabled'' else ''disabled''] \<rparr>)"

section \<open>Notions used in the properties\<close>

fun jsneg :: "jsnum \<Rightarrow> jsnum" where
  "jsneg (Num x) = Num (- x)"
| "jsneg NaN = NaN"
| "jsneg PosInfinity = NegInfinity"
| "jsneg NegInfinity = PosInfinity"

text \<open>The positions \<open>calcLocation\<close> computes for the indices \<open>0\<close> to \<open>N - 1\<close> of \<open>N\<close> tracks.\<close>

definition computed_positions :: "AudioTrack \<Rightarrow> nat \<Rightarrow> (jsnum \<times> jsnum) list" where
  "computed_positions t N =
     map (\<lambda>i. calcLocation (t\<lparr> trackIdx := Some i, trackLen := Some N \<rparr>)) [0..<N]"

text \<open>
  The two signal paths of a graph: source to panner to gain, and source to gain directly.
\<close>

definition path_spatial :: "sys \<Rightarrow> bool" where
  "path_spatial s =
     (case (source (this s), pannerNode (this s), gainNode (this s)) of
        (Some src, Some p, Some g) \<Rightarrow>
          (src, p) \<in> set (edges (win s)) \<and> (p, g) \<in> set (edges (win s))
      | _ \<Rightarrow> False)"

definition path_mono :: "sys \<Rightarrow> bool" where
  "path_mono s =
     (case (source (this s), gainNode (this s)) of
        (Some src, Some g) \<Rightarrow> (src, g) \<in> set (edges (win s))
      | _ \<Rightarrow> False)"

text \<open>
  The wiring agrees with the component's own \<open>_spatialAudio\<close>: the outgoing connections
  of source and panner are those of the panner path when it is true, and the one
  connection from source to gain otherwise.
\<close>

definition wired_by_flag :: "sys \<Rightarrow> bool" where
  "wired_by_flag s =
     (case (source (this s), pannerNode (this s), gainNode (this s)) of
        (Some src, Some p, Some g) \<Rightarrow>
          src \<noteq> p
          \<and> set (filter (\<lambda>e. fst e = src \<or> fst e = p) (edges (win s)))
              = (if spatialAudio_local (this s) = Some True then {(src, p), (p, g)} else {(src, g)})
      | _ \<Rightarrow> False)"

text \<open>
  One pass of the mode switch over a graph: the toggle action, then the component's update
  with the props \<open>np\<close>.
\<close>

definition mode_switch :: "props \<Rightarrow> sys \<Rightarrow> sys outcome" where
  "mode_switch np s = shouldComponentUpdate np (s\<lparr> win := toggleSpatialAudio (win s) \<rparr>)"

text \<open>
  A graph with all its parts and a track prop: a context, the assigned collection, a track
  prop that is not null, a source, a gain node and a panner node with its \<open>scale\<close>.
\<close>

definition graph_built :: "sys \<Rightarrow> bool" where
  "graph_built s =
     (the_context (win s) \<noteq> None \<and> audioTracks_assigned (win s)
      \<and> audioTrack (the_props (this s)) \<noteq> None \<and> source (this s) \<noteq> None
      \<and> (case gainNode (this s) of
            None \<Rightarrow> False
          | Some g \<Rightarrow> gain_value (win s) g \<noteq> None)
      \<and> (case pannerNode (this s) of
            None \<Rightarrow> False
          | Some p \<Rightarrow>
              (case panner_of (win s) p of
                 None \<Rightarrow> False
               | Some pn \<Rightarrow> scale pn \<noteq> None)))"

text \<open>
  What a \<open>componentDidMount\<close> that found its audio element and ran to its end leaves
  behind: a context, the assigned collection, a source, a gain node, and a panner node
  whose \<open>scale\<close> is \<open>1\<close>. It says nothing of the track prop.
\<close>

definition mount_completed :: "sys \<Rightarrow> bool" where
  "mount_completed s =
     (the_context (win s) \<noteq> None \<and> audioTracks_assigned (win s)
      \<and> source (this s) \<noteq> None
      \<and> (case gainNode (this s) of
            None \<Rightarrow> False
          | Some g \<Rightarrow> gain_value (win s) g \<noteq> None)
      \<and> (case pannerNode (this s) of
            None \<Rightarrow> False
          | Some p \<Rightarrow>
              (case panner_of (win s) p of
                 None \<Rightarrow> False
               | Some pn \<Rightarrow> scale pn = Some 1)))"

section \<open>A sample page\<close>

text \<open>
  A page with two elements of class \<open>audio-track\<close>, wrapping the audio elements of the
  participants \<open>a\<close> and \<open>b\<close>, in a browser with Web Audio, before any component is
  mounted.
\<close>

definition sample_browser :: browser where
  "sample_browser = \<lparr> has_AudioContext = True, starts_suspended = False, panner_position_params = True \<rparr>"

definition sample_window :: window where
  "sample_window =
     \<lparr> the_browser = sample_browser, the_context = None, spatialAudio = None,
       audioTracks_assigned = False,
       document_audio_tracks = [Some (Element ''remoteAudio_a''), Some (Element ''remoteAudio_b'')],
       nodes = (\<lambda>_. None), next_id = 0, edges = [], attachments = [], notifications = [] \<rparr>"

definition sample_element :: "string \<Rightarrow> audio_element" where
  "sample_element i =
     \<lparr> el_id = i, el_muted = False, el_volume = 1, play_calls = 0,
       capture = CaptureStream, stream_active = True \<rparr>"

definition sample_props :: "string \<Rightarrow> props" where
  "sample_props j =
     \<lparr> audioTrack = Some \<lparr> jitsiTrack = Some j, participantId = j \<rparr>,
       autoPlay = False, muted = JUndefined, volume = JNumber (Num 1) \<rparr>"

definition new_component :: "props \<Rightarrow> audio_element option \<Rightarrow> AudioTrack" where
  "new_component pr el =
     \<lparr> the_props = pr, ref = el, source = None, gainNode = None, pannerNode = None,
       trackIdx = None, trackLen = None, spatialAudio_local = None \<rparr>"

definition component_a :: AudioTrack where
  "component_a = new_component (sample_props ''a'') (Some (sample_element ''remoteAudio_a''))"

definition component_b :: AudioTrack where
  "component_b = new_component (sample_props ''b'') (Some (sample_element ''remoteAudio_b''))"

text \<open>
  The component of \<open>a\<close> on the sample page, as \<open>componentDidMount\<close> has it just
  before its call of \<open>updateSpatial\<close>.
\<close>

definition built_a :: sys where
  "built_a =
     state_of (mount_setup (sample_element ''remoteAudio_a'')
       (state_of (initContext (attachTrack (audioTrack (the_props component_a))
          \<lparr> win = sample_window, this = component_a \<rparr>))))"

text \<open>The component of \<open>a\<close> mounted on the sample page, then that of \<open>b\<close>.\<close>

definition mounted_a :: sys where
  "mounted_a = state_of (componentDidMount \<lparr> win = sample_window, this = component_a \<rparr>)"

definition mounted_b :: sys where
  "mounted_b = state_of (componentDidMount \<lparr> win = win mounted_a, this = component_b \<rparr>)"

text \<open>The component of \<open>a\<close> after one pass of the mode switch, and after a second.\<close>

definition switched_once_a :: sys where
  "switched_once_a = state_of (mode_switch (sample_props ''a'') mounted_a)"

definition switched_twice_a :: sys where
  "switched_twice_a = state_of (mode_switch (sample_props ''a'') switched_once_a)"

text \<open>
  Later, spatial audio has been toggled on and the document has changed: the wrapper of
  \<open>b\<close> is gone and a participant \<open>c\<close> has joined, while the component of \<open>b\<close> is
  still there.
\<close>

definition departed_b :: sys where
  "departed_b =
     mounted_b\<lparr> win := (toggleSpatialAudio (win mounted_b))\<lparr> document_audio_tracks :=
                   [Some (Element ''remoteAudio_a''), Some (Element ''remoteAudio_c'')] \<rparr> \<rparr>"

text \<open>
  A component whose audio element has neither \<open>mozCaptureStream\<close> nor
  \<open>captureStream\<close>: \<open>componentDidMount\<close> throws before it creates the source.
\<close>

definition failed_mount :: sys where
  "failed_mount =
     state_of (componentDidMount
       \<lparr> win = sample_window,
         this = new_component (sample_props ''a'')
                  (Some ((sample_element ''remoteAudio_a'')\<lparr> capture := NoCapture \<rparr>)) \<rparr>)"

section \<open>Rounding to two decimals\<close>

lemma toFixed2_0: "toFixed2 0 = 0" by (simp add: toFixed2_def)
lemma toFixed2_1: "toFixed2 1 = 1" by (simp add: toFixed2_def)
lemma toFixed2_minus: "toFixed2 (- x) = - toFixed2 x"
  by (simp add: toFixed2_def)

lemma toFixed2_close: "\<bar>toFixed2 x - x\<bar> \<le> 1 / 200"
proof -
  have fl: "\<bar>of_int \<lfloor>y * 100 + 1 / 2\<rfloor> / 100 - y\<bar> \<le> 1 / 200" for y :: real
  proof -
    define n where "n = real_of_int \<lfloor>y * 100 + 1 / 2\<rfloor>"
    have "n \<le> y * 100 + 1 / 2" and "y * 100 + 1 / 2 < n + 1"
      unfolding n_def by linarith+
    then have "\<bar>n / 100 - y\<bar> \<le> 1 / 200"
      by linarith
    then show ?thesis unfolding n_def .
  qed
  show ?thesis
  proof (cases "x < 0")
    case True
    have "\<bar>toFixed2 x - x\<bar> = \<bar>of_int \<lfloor>(- x) * 100 + 1 / 2\<rfloor> / 100 - (- x)\<bar>"
      using True by (simp add: toFixed2_def abs_minus_commute)
    then show ?thesis using fl[of "- x"] by simp
  next
    case False
    then show ?thesis using fl[of x] by (simp add: toFixed2_def)
  qed
qed

lemma toFixed2_hundredths: "\<exists>k::int. toFixed2 x = of_int k / 100"
proof (cases "x < 0")
  case True
  then have "toFixed2 x = of_int (- \<lfloor>(- x) * 100 + 1 / 2\<rfloor>) / 100" by (simp add: toFixed2_def)
  then show ?thesis by blast
next
  case False
  then have "toFixed2 x = of_int (\<lfloor>x * 100 + 1 / 2\<rfloor>) / 100" by (simp add: toFixed2_def)
  then show ?thesis by blast
qed

lemma sqrt3_lo: "173 / 100 \<le> sqrt 3" by (rule real_le_rsqrt) (simp add: power2_eq_square)
lemma sqrt3_hi: "sqrt 3 < 174 / 100" by (rule real_less_lsqrt) (simp_all add: power2_eq_square)

lemma toFixed2_cos30: "toFixed2 (sqrt 3 / 2) = 87 / 100"
proof -
  have "\<lfloor>sqrt 3 / 2 * 100 + 1 / 2\<rfloor> = 87"
    using sqrt3_lo sqrt3_hi by (simp add: floor_eq_iff)
  moreover have "\<not> sqrt 3 / 2 < 0" by simp
  ultimately show ?thesis unfolding toFixed2_def by simp
qed


section \<open>Properties of the azimuth computation\<close>

lemma calcLocation_Some:
  "trackIdx t = Some idx \<Longrightarrow> trackLen t = Some len \<Longrightarrow>
   calcLocation t =
     (Num (toFixed2 (sin (pi * (((real idx + 1) * (2 / (real len + 1)) - 1) / 2)))),
      Num (toFixed2 (cos (pi * (((real idx + 1) * (2 / (real len + 1)) - 1) / 2)))))"
  by (simp add: calcLocation_def Let_def)

text \<open>
  C1, as stated: for \<open>N\<close> tracks and the 1-based \<open>place\<close>, \<open>calcLocation\<close> returns
  exactly \<open>sin (\<pi>\<cdot>pos/2)\<close> and \<open>cos (\<pi>\<cdot>pos/2)\<close>. It does not: both values go
  through \<open>toFixed(2)\<close>. For \<open>N = 2\<close> and \<open>place = 1\<close> the second value is
  \<open>0.87\<close>, while \<open>cos (- \<pi>/6) = \<surd>3 / 2\<close>.
\<close>

theorem calcLocation_exact_counterexample:
  "calcLocation (component_a\<lparr> trackIdx := Some (1 - 1), trackLen := Some 2 \<rparr>)
     \<noteq> (Num (sin (pi * ((1 * (2 / (2 + 1)) - 1) / 2))), Num (cos (pi * ((1 * (2 / (2 + 1)) - 1) / 2))))"
proof -
  have arg: "pi * ((1 * (2 / (2 + 1)) - 1) / 2) = - (pi / 6)" by (simp add: field_simps)
  have c: "cos (pi * ((1 * (2 / (2 + 1)) - 1) / 2)) = sqrt 3 / 2"
    unfolding arg by (simp add: cos_30)
  have "calcLocation (component_a\<lparr> trackIdx := Some (1 - 1), trackLen := Some 2 \<rparr>)
        = (Num (toFixed2 (sin (- (pi / 6)))), Num (toFixed2 (cos (- (pi / 6)))))"
    using arg by (simp add: calcLocation_def Let_def)
  moreover have "toFixed2 (cos (- (pi / 6))) = 87 / 100"
    using toFixed2_cos30 by (simp add: cos_30)
  moreover have "(87 / 100 :: real) \<noteq> sqrt 3 / 2"
    using sqrt3_hi by simp
  ultimately show ?thesis unfolding c by simp
qed

text \<open>
  C1, amended: for every \<open>N \<ge> 1\<close> and every \<open>place\<close> with \<open>1 \<le> place \<le> N\<close>,
  \<open>calcLocation\<close> with \<open>_trackLen = N\<close> and \<open>_trackIdx = place - 1\<close> returns a pair
  of numbers, each a whole number of hundredths and within \<open>0.005\<close> of
  \<open>sin (\<pi>\<cdot>pos/2)\<close> and \<open>cos (\<pi>\<cdot>pos/2)\<close> respectively, where
  \<open>pos = place \<cdot> 2/(N+1) - 1\<close>; for \<open>N = 1\<close> it returns \<open>x = 0\<close>, \<open>y = 1\<close>.
\<close>

theorem calcLocation_rounded:
  assumes "1 \<le> place" and "place \<le> N"
    and "trackLen t = Some N" and "trackIdx t = Some (place - 1)"
  shows "\<exists>x y. calcLocation t = (Num x, Num y)
           \<and> \<bar>x - sin (pi * ((real place * (2 / (real N + 1)) - 1) / 2))\<bar> \<le> 1 / 200
           \<and> \<bar>y - cos (pi * ((real place * (2 / (real N + 1)) - 1) / 2))\<bar> \<le> 1 / 200
           \<and> (\<exists>k::int. x = of_int k / 100) \<and> (\<exists>k::int. y = of_int k / 100)
           \<and> (N = 1 \<longrightarrow> x = 0 \<and> y = 1)"
proof -
  have pl: "real (place - 1) + 1 = real place" using assms(1) by simp
  let ?a = "pi * ((real place * (2 / (real N + 1)) - 1) / 2)"
  have cl: "calcLocation t = (Num (toFixed2 (sin ?a)), Num (toFixed2 (cos ?a)))"
    using calcLocation_Some[OF assms(4) assms(3)] pl by simp
  have one: "N = 1 \<Longrightarrow> toFixed2 (sin ?a) = 0 \<and> toFixed2 (cos ?a) = 1"
  proof -
    assume "N = 1"
    with assms have "place = 1" by simp
    with \<open>N = 1\<close> have "?a = 0" by simp
    then show ?thesis by (simp add: toFixed2_0 toFixed2_1)
  qed
  show ?thesis
    using cl toFixed2_close[of "sin ?a"] toFixed2_close[of "cos ?a"]
      toFixed2_hundredths[of "sin ?a"] toFixed2_hundredths[of "cos ?a"] one
    by blast
qed

theorem calcLocation_rounded_witness:
  "\<exists>x y. calcLocation (component_a\<lparr> trackIdx := Some 0, trackLen := Some 1 \<rparr>) = (Num x, Num y)
           \<and> x = 0 \<and> y = 1"
  using calcLocation_rounded[of 1 1 "component_a\<lparr> trackIdx := Some 0, trackLen := Some 1 \<rparr>"]
  by auto

text \<open>
  The positions of the \<open>k\<close>-th and the \<open>(N+1-k)\<close>-th of \<open>N\<close> tracks mirror each
  other, for every \<open>N\<close>.
\<close>

lemma calcLocation_mirror:
  assumes "1 \<le> k" and "k \<le> N"
    and "trackLen a = Some N" and "trackIdx a = Some (k - 1)"
    and "trackLen b = Some N" and "trackIdx b = Some (N + 1 - k - 1)"
  shows "\<exists>x y. calcLocation a = (Num x, Num y) \<and> calcLocation b = (Num (- x), Num y)"
proof -
  define p where "p = pi * (((real (k - 1) + 1) * (2 / (real N + 1)) - 1) / 2)"
  define q where "q = pi * (((real (N + 1 - k - 1) + 1) * (2 / (real N + 1)) - 1) / 2)"
  have ka: "real (k - 1) + 1 = real k" using assms(1) by simp
  have kb: "real (N + 1 - k - 1) + 1 = real N + 1 - real k"
    using assms(1,2) by simp
  have "q = - p"
    unfolding p_def q_def ka kb by (simp add: field_simps)
  moreover have "calcLocation a = (Num (toFixed2 (sin p)), Num (toFixed2 (cos p)))"
    unfolding p_def by (rule calcLocation_Some[OF assms(4) assms(3)])
  moreover have "calcLocation b = (Num (toFixed2 (sin q)), Num (toFixed2 (cos q)))"
    unfolding q_def by (rule calcLocation_Some[OF assms(6) assms(5)])
  ultimately have "calcLocation b = (Num (- toFixed2 (sin p)), Num (toFixed2 (cos p)))"
    by (simp add: toFixed2_minus)
  with \<open>calcLocation a = _\<close> show ?thesis by blast
qed

lemma computed_positions_mirror:
  "rev (map fst (computed_positions t N)) = map (jsneg \<circ> fst) (computed_positions t N)"
proof (rule nth_equalityI)
  show "length (rev (map fst (computed_positions t N))) = length (map (jsneg \<circ> fst) (computed_positions t N))"
    by (simp add: computed_positions_def)
next
  fix i assume "i < length (rev (map fst (computed_positions t N)))"
  then have i: "i < N" by (simp add: computed_positions_def)
  then have j: "N - Suc i < N" by simp
  obtain x y where
    a: "calcLocation (t\<lparr> trackIdx := Some i, trackLen := Some N \<rparr>) = (Num x, Num y)" and
    b: "calcLocation (t\<lparr> trackIdx := Some (N - Suc i), trackLen := Some N \<rparr>) = (Num (- x), Num y)"
    using calcLocation_mirror[of "Suc i" N "t\<lparr> trackIdx := Some i, trackLen := Some N \<rparr>"
        "t\<lparr> trackIdx := Some (N - Suc i), trackLen := Some N \<rparr>"] i
    by auto
  have "rev (map fst (computed_positions t N)) ! i = map fst (computed_positions t N) ! (N - Suc i)"
    using i by (simp add: rev_nth computed_positions_def)
  also have "\<dots> = Num (- x)"
    using j b by (simp add: computed_positions_def del: upt_Suc)
  also have "\<dots> = map (jsneg \<circ> fst) (computed_positions t N) ! i"
    using i a by (simp add: computed_positions_def del: upt_Suc)
  finally show "rev (map fst (computed_positions t N)) ! i = map (jsneg \<circ> fst) (computed_positions t N) ! i" .
qed

text \<open>
  C7: for every \<open>N\<close> in \<open>{2, 3, 4, 5}\<close> and every \<open>k\<close> with \<open>1 \<le> k \<le> N\<close>, the
  computed positions of the \<open>k\<close>-th and the \<open>(N+1-k)\<close>-th participant have opposite
  \<open>x\<close> and equal \<open>y\<close>; hence the \<open>x\<close>-positions of the \<open>N\<close> participants, read
  backwards, are their own negations (the multiset of \<open>x\<close>-positions is symmetric about
  \<open>0\<close>).
\<close>

theorem calcLocation_symmetric:
  assumes "N \<in> {2, 3, 4, 5}" and "1 \<le> k" and "k \<le> N"
    and "trackLen a = Some N" and "trackIdx a = Some (k - 1)"
    and "trackLen b = Some N" and "trackIdx b = Some (N + 1 - k - 1)"
  shows "(\<exists>x y. calcLocation a = (Num x, Num y) \<and> calcLocation b = (Num (- x), Num y))
         \<and> rev (map fst (computed_positions t N)) = map (jsneg \<circ> fst) (computed_positions t N)"
  using calcLocation_mirror[OF assms(2-7)] computed_positions_mirror by blast

theorem calcLocation_symmetric_witness:
  "\<exists>x y. calcLocation (component_a\<lparr> trackIdx := Some 0, trackLen := Some 3 \<rparr>) = (Num x, Num y)
     \<and> calcLocation (component_b\<lparr> trackIdx := Some 2, trackLen := Some 3 \<rparr>) = (Num (- x), Num y)"
  using calcLocation_symmetric[of 3 1 "component_a\<lparr> trackIdx := Some 0, trackLen := Some 3 \<rparr>"
      "component_b\<lparr> trackIdx := Some 2, trackLen := Some 3 \<rparr>"]
  by simp

text \<open>
  C8: \<open>calcLocation\<close> is determined by the track index and the track count: two
  components, whatever the rest of their state, that agree on \<open>_trackIdx\<close> and
  \<open>_trackLen\<close> get the same pair.
\<close>

theorem calcLocation_deterministic:
  "trackIdx a = trackIdx b \<Longrightarrow> trackLen a = trackLen b \<Longrightarrow> calcLocation a = calcLocation b"
  by (simp add: calcLocation_def)

theorem calcLocation_deterministic_witness:
  "calcLocation (component_a\<lparr> trackIdx := Some 1, trackLen := Some 4 \<rparr>)
     = calcLocation (component_b\<lparr> trackIdx := Some 1, trackLen := Some 4 \<rparr>)
   \<and> component_a\<lparr> trackIdx := Some 1, trackLen := Some 4 \<rparr>
       \<noteq> component_b\<lparr> trackIdx := Some 1, trackLen := Some 4 \<rparr>"
proof -
  have "component_a\<lparr> trackIdx := Some 1, trackLen := Some 4 \<rparr>
       \<noteq> component_b\<lparr> trackIdx := Some 1, trackLen := Some 4 \<rparr>"
    by (simp add: component_a_def component_b_def new_component_def sample_props_def)
  then show ?thesis
    using calcLocation_deterministic[of "component_a\<lparr> trackIdx := Some 1, trackLen := Some 4 \<rparr>"
        "component_b\<lparr> trackIdx := Some 1, trackLen := Some 4 \<rparr>"]
    by simp
qed


lemma toFixed2_half: "toFixed2 (1 / 2) = 1 / 2"
  by (simp add: toFixed2_def)

lemma calcLocation_0_2:
  "trackIdx t = Some 0 \<Longrightarrow> trackLen t = Some 2 \<Longrightarrow> calcLocation t = (Num (- (1 / 2)), Num (87 / 100))"
proof -
  assume a: "trackIdx t = Some 0" "trackLen t = Some 2"
  have arg: "pi * (((real 0 + 1) * (2 / (real 2 + 1)) - 1) / 2) = - (pi / 6)" by (simp add: field_simps)
  show ?thesis
    unfolding calcLocation_Some[OF a] arg
    using toFixed2_cos30 toFixed2_half by (simp add: sin_30 cos_30 toFixed2_minus)
qed

lemma calcLocation_1_2:
  "trackIdx t = Some 1 \<Longrightarrow> trackLen t = Some 2 \<Longrightarrow> calcLocation t = (Num (1 / 2), Num (87 / 100))"
proof -
  assume a: "trackIdx t = Some 1" "trackLen t = Some 2"
  have arg: "pi * (((real 1 + 1) * (2 / (real 2 + 1)) - 1) / 2) = pi / 6" by (simp add: field_simps)
  show ?thesis
    unfolding calcLocation_Some[OF a] arg
    using toFixed2_cos30 toFixed2_half by (simp add: sin_30 cos_30)
qed

lemmas sample_defs = sample_window_def sample_browser_def sample_element_def sample_props_def
  new_component_def component_a_def component_b_def

lemmas method_defs = componentDidMount_def mount_setup_def mount_props_def initContext_def attachTrack_def setupSpatial_def
  updateSpatial_def getIndex_def audioTracks_def create_node_def connect_def set_gain_def
  set_panner_def default_panner_def

section \<open>What each step leaves unchanged\<close>

lemma attachTrack_frame [simp]:
  "nodes (win (attachTrack tr s)) = nodes (win s)"
  "edges (win (attachTrack tr s)) = edges (win s)"
  "the_context (win (attachTrack tr s)) = the_context (win s)"
  "spatialAudio (win (attachTrack tr s)) = spatialAudio (win s)"
  "audioTracks (win (attachTrack tr s)) = audioTracks (win s)"
  "the_browser (win (attachTrack tr s)) = the_browser (win s)"
  "this (attachTrack tr s) = this s"
  by (simp_all add: attachTrack_def audioTracks_def split: option.splits)

lemma detachTrack_frame [simp]:
  "nodes (win (detachTrack tr s)) = nodes (win s)"
  "edges (win (detachTrack tr s)) = edges (win s)"
  "the_context (win (detachTrack tr s)) = the_context (win s)"
  "spatialAudio (win (detachTrack tr s)) = spatialAudio (win s)"
  "audioTracks (win (detachTrack tr s)) = audioTracks (win s)"
  "the_browser (win (detachTrack tr s)) = the_browser (win s)"
  "this (detachTrack tr s) = this s"
  by (simp_all add: detachTrack_def audioTracks_def split: option.splits)

lemma set_muted_frame [simp]:
  "win (set_muted b s) = win s"
  "gainNode (this (set_muted b s)) = gainNode (this s)"
  "pannerNode (this (set_muted b s)) = pannerNode (this s)"
  "source (this (set_muted b s)) = source (this s)"
  "trackIdx (this (set_muted b s)) = trackIdx (this s)"
  "trackLen (this (set_muted b s)) = trackLen (this s)"
  "spatialAudio_local (this (set_muted b s)) = spatialAudio_local (this s)"
  "the_props (this (set_muted b s)) = the_props (this s)"
  by (simp_all add: set_muted_def split: option.splits)

lemma update_muted_frame [simp]:
  "win (update_muted nm nv cm s) = win s"
  "gainNode (this (update_muted nm nv cm s)) = gainNode (this s)"
  "pannerNode (this (update_muted nm nv cm s)) = pannerNode (this s)"
  "source (this (update_muted nm nv cm s)) = source (this s)"
  "trackIdx (this (update_muted nm nv cm s)) = trackIdx (this s)"
  "trackLen (this (update_muted nm nv cm s)) = trackLen (this s)"
  "spatialAudio_local (this (update_muted nm nv cm s)) = spatialAudio_local (this s)"
  "the_props (this (update_muted nm nv cm s)) = the_props (this s)"
  by (simp_all add: update_muted_def split: jsval.splits)

lemma switchCondition_frame [simp]:
  "nodes (win (state_of (switchCondition s))) = nodes (win s)"
  "the_context (win (state_of (switchCondition s))) = the_context (win s)"
  "spatialAudio (win (state_of (switchCondition s))) = spatialAudio (win s)"
  "audioTracks (win (state_of (switchCondition s))) = audioTracks (win s)"
  "the_browser (win (state_of (switchCondition s))) = the_browser (win s)"
  "this (state_of (switchCondition s)) = this s"
  by (simp_all add: switchCondition_def connect_def disconnect_def audioTracks_def Let_def
      split: option.splits)

lemma update_mode_frame [simp]:
  "nodes (win (state_of (update_mode s))) = nodes (win s)"
  "the_context (win (state_of (update_mode s))) = the_context (win s)"
  "spatialAudio (win (state_of (update_mode s))) = spatialAudio (win s)"
  "audioTracks (win (state_of (update_mode s))) = audioTracks (win s)"
  "the_browser (win (state_of (update_mode s))) = the_browser (win s)"
  "ref (this (state_of (update_mode s))) = ref (this s)"
  "gainNode (this (state_of (update_mode s))) = gainNode (this s)"
  "pannerNode (this (state_of (update_mode s))) = pannerNode (this s)"
  "source (this (state_of (update_mode s))) = source (this s)"
  "trackIdx (this (state_of (update_mode s))) = trackIdx (this s)"
  "trackLen (this (state_of (update_mode s))) = trackLen (this s)"
  "the_props (this (state_of (update_mode s))) = the_props (this s)"
  unfolding update_mode_def
  by (cases "switchCondition s"; use switchCondition_frame[of s] in \<open>simp\<close>)+

lemma updateSpatial_nodes:
  "nodes (win (state_of (updateSpatial s))) = nodes (win s)
   \<or> (\<exists>p pn pn'. pannerNode (this s) = Some p \<and> nodes (win s) p = Some (PannerNode pn)
         \<and> nodes (win (state_of (updateSpatial s))) = (nodes (win s))(p := Some (PannerNode pn')))"
  by (auto simp add: updateSpatial_def set_panner_def Let_def
      split: prod.splits option.splits audio_node.splits jsnum.splits)

lemma updateSpatial_gain [simp]:
  "gain_value (win (state_of (updateSpatial s))) g = gain_value (win s) g"
  using updateSpatial_nodes[of s] by (auto simp add: gain_value_def)

lemma updateSpatial_this [simp]:
  "this (state_of (updateSpatial s)) = this s"
  by (simp add: updateSpatial_def set_panner_def Let_def
      split: prod.splits option.splits audio_node.splits jsnum.splits)

lemma update_position_gain [simp]:
  "gain_value (win (state_of (update_position s))) g = gain_value (win s) g"
  by (simp add: update_position_def Let_def split: sum.splits option.splits)

lemma gain_value_cong: "nodes w = nodes w' \<Longrightarrow> gain_value w g = gain_value w' g"
  by (simp add: gain_value_def)

lemma update_mode_gain [simp]:
  "gain_value (win (state_of (update_mode s))) g = gain_value (win s) g"
  by (rule gain_value_cong) simp

lemma set_gain_gain:
  "gain_value (win (state_of (set_gain g v s))) g' =
     (case v of
        Num x \<Rightarrow> if g' = g \<and> gain_value (win s) g \<noteq> None \<and> fits_float x then Some x
                 else gain_value (win s) g'
      | _ \<Rightarrow> gain_value (win s) g')"
  by (simp add: set_gain_def gain_value_def split: option.splits audio_node.splits jsnum.splits)

lemma update_volume_gain:
  "gain_value (win s) g = Some cur \<Longrightarrow>
   gain_value (win (state_of (update_volume nv g cur s))) g' =
     (if g' = g
      then (case nv of JNumber (Num v) \<Rightarrow> if fits_float v then Some v else Some cur
                     | _ \<Rightarrow> Some cur)
      else gain_value (win s) g')"
  by (auto simp add: update_volume_def set_gain_gain split: jsval.splits jsnum.splits)

lemma state_of_andThen_gain:
  assumes "\<And>s'. gain_value (win (state_of (f s'))) g = gain_value (win s') g"
  shows "gain_value (win (state_of (andThen m f))) g = gain_value (win (state_of m)) g"
  using assms by (cases m) simp_all

text \<open>The steps of \<open>shouldComponentUpdate\<close> after the volume leave every gain value alone.\<close>

lemma after_volume_gain:
  "gain_value (win (state_of (andThen m (\<lambda>s3. andThen (update_mode (update_muted nm nv cm s3)) update_position)))) g
     = gain_value (win (state_of m)) g"
  by (rule state_of_andThen_gain) (simp add: state_of_andThen_gain)

lemma shouldComponentUpdate_gain:
  "gain_value (win (state_of (shouldComponentUpdate np s))) g' =
     (case (audioTrack (the_props (this s)), the_context (win s), ref (this s), gainNode (this s)) of
        (Some cur, Some c, Some el, Some g) \<Rightarrow>
          (case gain_value (win s) g of
             Some cv \<Rightarrow> (if g' = g
                         then (case volume np of
                                 JNumber (Num v) \<Rightarrow> if fits_float v then Some v else Some cv
                               | _ \<Rightarrow> Some cv)
                         else gain_value (win s) g')
           | None \<Rightarrow> gain_value (win s) g')
      | _ \<Rightarrow> gain_value (win s) g')"
proof -
  have gv: "gain_value (w\<lparr> the_context := c \<rparr>) = gain_value w" for w c
    by (simp add: gain_value_def fun_eq_iff)
  show ?thesis
    unfolding shouldComponentUpdate_def Let_def
    by (auto simp add: after_volume_gain update_volume_gain gv gain_value_cong[of "win (attachTrack _ _)"]
        split: option.splits)
qed

section \<open>The sample page, evaluated\<close>

lemmas nat_ids = eval_nat_numeral

lemma fits_float_unit: "\<bar>x\<bar> \<le> 1 \<Longrightarrow> fits_float x"
proof -
  assume "\<bar>x\<bar> \<le> 1"
  moreover have "(1::real) < 2 ^ 128 - 2 ^ 103" by simp
  ultimately show ?thesis unfolding fits_float_def by linarith
qed

lemma fits_float_simps [simp]: "fits_float 1" "fits_float (3 / 10)"
  by (simp_all add: fits_float_unit)

lemma mounted_a_win:
  "win mounted_a =
     \<lparr> the_browser = sample_browser,
       the_context = Some \<lparr> state = Running, resume_calls = 0,
                             listener = \<lparr> forward = (0, 0, -1), up = (0, 1, 0),
                                          listenerPosition = (0, 0, 1) \<rparr>,
                             destination = 0 \<rparr>,
       spatialAudio = Some False, audioTracks_assigned = True,
       document_audio_tracks = [Some (Element ''remoteAudio_a''), Some (Element ''remoteAudio_b'')],
       nodes = (\<lambda>_. None)(0 := Some DestinationNode, 1 := Some MediaStreamSource,
                 3 := Some (PannerNode (default_panner\<lparr> positionX := - (1 / 2), positionY := 87 / 100,
                        panningModel := ''HRTF'', coneOuterAngle := 0, scale := Some 1 \<rparr>)),
                 2 := Some (GainNode 1)),
       next_id = 4, edges = [(2, 0), (3, 2), (1, 3)],
       attachments = [(''a'', ''remoteAudio_a'')], notifications = [] \<rparr>"
  unfolding mounted_a_def
  by (simp add: sample_defs method_defs Let_def calcLocation_0_2 nat_ids)

lemma mounted_a_this:
  "this mounted_a =
     component_a\<lparr> source := Some 1, gainNode := Some 2, pannerNode := Some 3,
                  trackIdx := Some 0, trackLen := Some 2, spatialAudio_local := Some False \<rparr>"
  unfolding mounted_a_def
  by (simp add: sample_defs method_defs Let_def calcLocation_0_2 nat_ids)


lemma mounted_b_win:
  "win mounted_b =
     \<lparr> the_browser = sample_browser,
       the_context = Some \<lparr> state = Running, resume_calls = 0,
                             listener = \<lparr> forward = (0, 0, -1), up = (0, 1, 0),
                                          listenerPosition = (0, 0, 1) \<rparr>,
                             destination = 0 \<rparr>,
       spatialAudio = Some False, audioTracks_assigned = True,
       document_audio_tracks = [Some (Element ''remoteAudio_a''), Some (Element ''remoteAudio_b'')],
       nodes = (\<lambda>_. None)(0 := Some DestinationNode, 1 := Some MediaStreamSource,
                 3 := Some (PannerNode (default_panner\<lparr> positionX := - (1 / 2), positionY := 87 / 100,
                        panningModel := ''HRTF'', coneOuterAngle := 0, scale := Some 1 \<rparr>)),
                 2 := Some (GainNode 1),
                 4 := Some MediaStreamSource,
                 6 := Some (PannerNode (default_panner\<lparr> positionX := 1 / 2, positionY := 87 / 100,
                        panningModel := ''HRTF'', coneOuterAngle := 0, scale := Some 1 \<rparr>)),
                 5 := Some (GainNode 1)),
       next_id = 7, edges = [(5, 0), (6, 5), (4, 6), (2, 0), (3, 2), (1, 3)],
       attachments = [(''b'', ''remoteAudio_b''), (''a'', ''remoteAudio_a'')], notifications = [] \<rparr>"
  unfolding mounted_b_def mounted_a_win
  by (simp add: sample_defs method_defs Let_def calcLocation_1_2 nat_ids)

lemma mounted_b_this:
  "this mounted_b =
     component_b\<lparr> source := Some 4, gainNode := Some 5, pannerNode := Some 6,
                  trackIdx := Some 1, trackLen := Some 2, spatialAudio_local := Some False \<rparr>"
  unfolding mounted_b_def mounted_a_win
  by (simp add: sample_defs method_defs Let_def calcLocation_1_2 nat_ids)

section \<open>Volume\<close>

lemma updateSpatial_next_id [simp]:
  "next_id (win (state_of (updateSpatial s))) = next_id (win s)"
  by (simp add: updateSpatial_def set_panner_def Let_def
      split: prod.splits option.splits audio_node.splits jsnum.splits)

lemma mount_props_frame [simp]:
  "next_id (win (state_of (mount_props s))) = next_id (win s)"
  "gainNode (this (state_of (mount_props s))) = gainNode (this s)"
  by (auto simp add: mount_props_def set_gain_def set_muted_def play_def Let_def
      split: jsval.splits option.splits audio_node.splits jsnum.splits)

lemma initContext_frame:
  "next_id (win s) \<le> next_id (win (state_of (initContext s)))"
  "this (state_of (initContext s)) = this s"
  by (auto simp add: initContext_def create_node_def Let_def split: option.splits)

lemma mount_setup_ids:
  "mount_setup el s = Done s' \<Longrightarrow>
   gainNode (this s') = Some (next_id (win s) + 1) \<and> next_id (win s') = next_id (win s) + 3"
  by (auto simp add: mount_setup_def setupSpatial_def create_node_def connect_def Let_def
      split: if_splits option.splits sum.splits)

text \<open>
  The gain node of a graph that \<open>componentDidMount\<close> has built is a node that did not
  exist before: a graph mounted later never shares its gain node with an earlier one.
\<close>

lemma componentDidMount_gain_fresh:
  assumes "componentDidMount s = Done s'" and "ref (this s) \<noteq> None"
  shows "\<exists>g. gainNode (this s') = Some g \<and> next_id (win s) \<le> g \<and> g < next_id (win s')"
proof -
  let ?s0 = "attachTrack (audioTrack (the_props (this s))) s"
  obtain s1 where i: "initContext ?s0 = Done s1"
    using assms(1) by (cases "initContext ?s0") (simp_all add: componentDidMount_def)
  have n1: "next_id (win s) \<le> next_id (win s1)" and t1: "this s1 = this s"
    using initContext_frame[of ?s0] i by (simp_all add: attachTrack_def split: option.splits)
  obtain el where el: "ref (this s1) = Some el" using assms(2) t1 by auto
  have m: "andThen (andThen (mount_setup el s1) updateSpatial) mount_props = Done s'"
    using assms(1) i el by (simp add: componentDidMount_def)
  obtain s2 where s2: "mount_setup el s1 = Done s2"
    using m by (cases "mount_setup el s1") simp_all
  obtain s3 where s3: "updateSpatial s2 = Done s3"
    using m s2 by (cases "updateSpatial s2") simp_all
  have s': "mount_props s3 = Done s'" using m s2 s3 by simp
  have "gainNode (this s2) = Some (next_id (win s1) + 1)" "next_id (win s2) = next_id (win s1) + 3"
    using mount_setup_ids[OF s2] by simp_all
  moreover have "this s3 = this s2" "next_id (win s3) = next_id (win s2)"
    using updateSpatial_this[of s2] updateSpatial_next_id[of s2] s3 by simp_all
  moreover have "gainNode (this s') = gainNode (this s3)" "next_id (win s') = next_id (win s3)"
    using mount_props_frame[of s3] s' by simp_all
  ultimately show ?thesis using n1 by simp
qed

text \<open>
  C9: for two graphs \<open>a\<close> and \<open>b\<close> with different gain nodes (as any two mounted
  graphs have, by the lemma above) and any volume \<open>v\<close>, an update of \<open>a\<close> with the
  volume prop \<open>v\<close> leaves the gain value of \<open>b\<close> as it was; when \<open>a\<close> is a built
  graph with its audio element, the gain value of \<open>a\<close> becomes \<open>v\<close> if \<open>v\<close> is within
  the single-precision range, and stays as it was otherwise (the assignment throws). The
  state of the global flag and the wiring are arbitrary, so this holds in both modes.
\<close>

theorem volume_isolation:
  assumes "gainNode a = Some ga" and "gainNode b = Some gb" and "ga \<noteq> gb"
  shows "gain_value (win (state_of (shouldComponentUpdate (np\<lparr> volume := JNumber (Num v) \<rparr>)
                                      \<lparr> win = w, this = a \<rparr>))) gb = gain_value w gb
         \<and> (graph_built \<lparr> win = w, this = a \<rparr> \<and> ref a \<noteq> None \<longrightarrow>
              gain_value (win (state_of (shouldComponentUpdate (np\<lparr> volume := JNumber (Num v) \<rparr>)
                                           \<lparr> win = w, this = a \<rparr>))) ga
                = (if fits_float v then Some v else gain_value w ga))"
  using assms
  by (auto simp add: shouldComponentUpdate_gain graph_built_def split: option.splits)

theorem volume_isolation_witness:
  "gain_value (win (state_of (shouldComponentUpdate ((sample_props ''a'')\<lparr> volume := JNumber (Num (3 / 10)) \<rparr>)
                                \<lparr> win = win mounted_b, this = this mounted_a \<rparr>))) 5 = Some 1
   \<and> gain_value (win (state_of (shouldComponentUpdate ((sample_props ''a'')\<lparr> volume := JNumber (Num (3 / 10)) \<rparr>)
                                \<lparr> win = win mounted_b, this = this mounted_a \<rparr>))) 2 = Some (3 / 10)
   \<and> gain_value (win mounted_b) 2 = Some 1"
proof -
  have a: "gainNode (this mounted_a) = Some 2" by (simp add: mounted_a_this)
  have b: "gainNode (this mounted_b) = Some 5" by (simp add: mounted_b_this)
  have g5: "gain_value (win mounted_b) 5 = Some 1" and g2: "gain_value (win mounted_b) 2 = Some 1"
    by (simp_all add: mounted_b_win gain_value_def)
  have built: "graph_built \<lparr> win = win mounted_b, this = this mounted_a \<rparr>"
    by (simp add: graph_built_def mounted_b_win mounted_a_this gain_value_def panner_of_def
        component_a_def new_component_def sample_props_def)
  have r: "ref (this mounted_a) \<noteq> None"
    by (simp add: mounted_a_this component_a_def new_component_def)
  show ?thesis
    using volume_isolation[OF a b, where np = "sample_props ''a''" and v = "3 / 10" and w = "win mounted_b"] built r g5 g2
    by simp
qed

text \<open>
  C10: an update whose volume prop is not of number type, or is \<open>NaN\<close>, or equals the
  current gain value, leaves the gain value of the component's gain node unchanged; and
  whenever the update changes that value, the prop is a number other than \<open>NaN\<close> that
  differs from the old value, and is the new value.
\<close>

theorem volume_guard:
  assumes "gainNode (this s) = Some g"
  shows "((\<forall>n. volume np \<noteq> JNumber n) \<or> volume np = JNumber NaN
            \<or> (\<exists>v. volume np = JNumber (Num v) \<and> gain_value (win s) g = Some v)
          \<longrightarrow> gain_value (win (state_of (shouldComponentUpdate np s))) g = gain_value (win s) g)
         \<and> (gain_value (win (state_of (shouldComponentUpdate np s))) g \<noteq> gain_value (win s) g
          \<longrightarrow> (\<exists>v. volume np = JNumber (Num v) \<and> gain_value (win s) g \<noteq> Some v
                    \<and> gain_value (win (state_of (shouldComponentUpdate np s))) g = Some v))"
  using assms
  by (auto simp add: shouldComponentUpdate_gain split: option.splits jsval.splits jsnum.splits)

theorem volume_guard_witness:
  "gainNode (this mounted_a) = Some 2
   \<and> gain_value (win (state_of (shouldComponentUpdate ((sample_props ''a'')\<lparr> volume := JNumber NaN \<rparr>)
                                  mounted_a))) 2 = Some 1
   \<and> gain_value (win (state_of (shouldComponentUpdate ((sample_props ''a'')\<lparr> volume := JUndefined \<rparr>)
                                  mounted_a))) 2 = Some 1
   \<and> gain_value (win (state_of (shouldComponentUpdate ((sample_props ''a'')\<lparr> volume := JNumber (Num 1) \<rparr>)
                                  mounted_a))) 2 = Some 1"
proof -
  have a: "gainNode (this mounted_a) = Some 2" by (simp add: mounted_a_this)
  have g: "gain_value (win mounted_a) 2 = Some 1"
    by (simp add: mounted_a_win gain_value_def)
  show ?thesis
    using a g
      volume_guard[OF a, where np = "(sample_props ''a'')\<lparr> volume := JNumber NaN \<rparr>"]
      volume_guard[OF a, where np = "(sample_props ''a'')\<lparr> volume := JUndefined \<rparr>"]
      volume_guard[OF a, where np = "(sample_props ''a'')\<lparr> volume := JNumber (Num 1) \<rparr>"]
    by simp
qed

section \<open>Teardown\<close>

text \<open>
  C6, amended: for every graph whose source node has been created,
  \<open>componentWillUnmount\<close> raises no error and removes the outgoing connections of the
  source node, and only those; a second call raises no error either and ends in the same
  state as the first.
\<close>

theorem componentWillUnmount_idempotent:
  assumes "source (this s) = Some src"
  shows "thrown (componentWillUnmount s) = None
         \<and> componentWillUnmount (state_of (componentWillUnmount s)) = componentWillUnmount s
         \<and> set (edges (win (state_of (componentWillUnmount s))))
             = {e \<in> set (edges (win s)). fst e \<noteq> src}"
  using assms
  by (auto simp add: componentWillUnmount_def detachTrack_def disconnect_def Let_def
      split: option.splits)

theorem componentWillUnmount_idempotent_witness:
  "thrown (componentWillUnmount mounted_a) = None
   \<and> componentWillUnmount (state_of (componentWillUnmount mounted_a)) = componentWillUnmount mounted_a"
proof -
  have "source (this mounted_a) = Some 1" by (simp add: mounted_a_this)
  from componentWillUnmount_idempotent[OF this] show ?thesis by simp
qed

lemma failed_mount_this: "this failed_mount = new_component (sample_props ''a'')
         (Some ((sample_element ''remoteAudio_a'')\<lparr> capture := NoCapture \<rparr>))"
  unfolding failed_mount_def
  by (simp add: sample_defs method_defs Let_def)

text \<open>
  C6, as stated: after teardown no nodes are connected, and teardown raises no error in any
  construction state. On the mounted sample graph the connections panner to gain and gain
  to destination remain; on the component whose \<open>componentDidMount\<close> threw before the
  source was created, \<open>componentWillUnmount\<close> throws a TypeError.
\<close>

theorem unmount_leaves_connections_counterexample:
  "thrown (componentWillUnmount mounted_a) = None
   \<and> edges (win (state_of (componentWillUnmount mounted_a))) = [(2, 0), (3, 2)]
   \<and> thrown (componentWillUnmount failed_mount) = Some TypeError"
  by (simp add: componentWillUnmount_def detachTrack_def disconnect_def Let_def
      mounted_a_this mounted_a_win failed_mount_this sample_defs)

section \<open>Position updates\<close>

lemma built_a_win:
  "win built_a =
     \<lparr> the_browser = sample_browser,
       the_context = Some \<lparr> state = Running, resume_calls = 0,
                             listener = \<lparr> forward = (0, 0, -1), up = (0, 1, 0),
                                          listenerPosition = (0, 0, 1) \<rparr>,
                             destination = 0 \<rparr>,
       spatialAudio = Some False, audioTracks_assigned = True,
       document_audio_tracks = [Some (Element ''remoteAudio_a''), Some (Element ''remoteAudio_b'')],
       nodes = (\<lambda>_. None)(0 := Some DestinationNode, 1 := Some MediaStreamSource,
                 2 := Some (GainNode 1),
                 3 := Some (PannerNode (default_panner\<lparr> panningModel := ''HRTF'',
                        coneOuterAngle := 0, scale := Some 1 \<rparr>))),
       next_id = 4, edges = [(2, 0), (3, 2), (1, 3)],
       attachments = [(''a'', ''remoteAudio_a'')], notifications = [] \<rparr>"
  unfolding built_a_def
  by (simp add: sample_defs method_defs Let_def nat_ids)

lemma built_a_this:
  "this built_a =
     component_a\<lparr> source := Some 1, gainNode := Some 2, pannerNode := Some 3,
                  trackIdx := Some 0, trackLen := Some 2, spatialAudio_local := Some False \<rparr>"
  unfolding built_a_def
  by (simp add: sample_defs method_defs Let_def nat_ids)

text \<open>
  C4, as stated: a position update is a no-op on the panner while spatialization is
  disabled. \<open>componentDidMount\<close> calls \<open>updateSpatial\<close> whatever the flag is: on the
  sample page the flag is false and the call moves the new panner from \<open>(0, 0)\<close> to
  \<open>(-0.5, 0.87)\<close>.
\<close>

theorem updateSpatial_disabled_counterexample:
  "spatialAudio (win built_a) = Some False
   \<and> panner_of (win built_a) 3
       = Some (default_panner\<lparr> panningModel := ''HRTF'', coneOuterAngle := 0, scale := Some 1 \<rparr>)
   \<and> panner_of (win (state_of (updateSpatial built_a))) 3
       = Some (default_panner\<lparr> positionX := - (1 / 2), positionY := 87 / 100,
                 panningModel := ''HRTF'', coneOuterAngle := 0, scale := Some 1 \<rparr>)
   \<and> positionX default_panner = 0 \<and> positionY default_panner = 0"
  by (simp add: built_a_win built_a_this updateSpatial_def set_panner_def panner_of_def
      calcLocation_0_2 component_a_def new_component_def sample_browser_def default_panner_def)

lemma panner_of_cong: "nodes w = nodes w' \<Longrightarrow> panner_of w p = panner_of w' p"
  by (simp add: panner_of_def)

lemma set_gain_panner [simp]:
  "panner_of (win (state_of (set_gain g v s))) p = panner_of (win s) p"
  by (auto simp add: set_gain_def panner_of_def split: option.splits audio_node.splits jsnum.splits)

lemma set_gain_this [simp]: "this (state_of (set_gain g v s)) = this s"
  by (simp add: set_gain_def split: option.splits audio_node.splits jsnum.splits)

lemma set_gain_win [simp]:
  "the_context (win (state_of (set_gain g v s))) = the_context (win s)"
  "spatialAudio (win (state_of (set_gain g v s))) = spatialAudio (win s)"
  "audioTracks (win (state_of (set_gain g v s))) = audioTracks (win s)"
  "the_browser (win (state_of (set_gain g v s))) = the_browser (win s)"
  "edges (win (state_of (set_gain g v s))) = edges (win s)"
  by (simp_all add: set_gain_def audioTracks_def split: option.splits audio_node.splits jsnum.splits)

lemma update_volume_frame [simp]:
  "panner_of (win (state_of (update_volume nv g cv s))) p = panner_of (win s) p"
  "this (state_of (update_volume nv g cv s)) = this s"
  "the_context (win (state_of (update_volume nv g cv s))) = the_context (win s)"
  "spatialAudio (win (state_of (update_volume nv g cv s))) = spatialAudio (win s)"
  "audioTracks (win (state_of (update_volume nv g cv s))) = audioTracks (win s)"
  "the_browser (win (state_of (update_volume nv g cv s))) = the_browser (win s)"
  "edges (win (state_of (update_volume nv g cv s))) = edges (win s)"
  by (simp_all add: update_volume_def split: jsval.splits jsnum.splits)

lemma update_mode_panner [simp]:
  "panner_of (win (state_of (update_mode s))) p = panner_of (win s) p"
  by (rule panner_of_cong) simp

lemma update_position_disabled:
  "spatialAudio (win s) \<noteq> Some True \<Longrightarrow> update_position s = Done s"
  by (simp add: update_position_def)

text \<open>With the flag off, an update leaves every panner and the stored index and length alone.\<close>

lemma shouldComponentUpdate_disabled:
  assumes "spatialAudio (win s) \<noteq> Some True"
  shows "panner_of (win (state_of (shouldComponentUpdate np s))) p = panner_of (win s) p
         \<and> trackIdx (this (state_of (shouldComponentUpdate np s))) = trackIdx (this s)
         \<and> trackLen (this (state_of (shouldComponentUpdate np s))) = trackLen (this s)"
proof -
  have pc: "panner_of (w\<lparr> the_context := c \<rparr>) = panner_of w" for w c
    by (simp add: panner_of_def fun_eq_iff)
  have tail: "panner_of (win (state_of (andThen m (\<lambda>s3. andThen (update_mode (update_muted nm nv cm s3)) update_position)))) p
                = panner_of (win (state_of m)) p
              \<and> trackIdx (this (state_of (andThen m (\<lambda>s3. andThen (update_mode (update_muted nm nv cm s3)) update_position))))
                = trackIdx (this (state_of m))
              \<and> trackLen (this (state_of (andThen m (\<lambda>s3. andThen (update_mode (update_muted nm nv cm s3)) update_position))))
                = trackLen (this (state_of m))"
    if "spatialAudio (win (state_of m)) \<noteq> Some True" for m nm nv cm
  proof (cases m)
    case (Done s3)
    with that have off: "spatialAudio (win s3) \<noteq> Some True" by simp
    show ?thesis
    proof (cases "update_mode (update_muted nm nv cm s3)")
      case (Done s4)
      have "spatialAudio (win s4) = spatialAudio (win s3)"
        using update_mode_frame(3)[of "update_muted nm nv cm s3"] Done by simp
      with off have "update_position s4 = Done s4" by (simp add: update_position_disabled)
      moreover have "panner_of (win s4) p = panner_of (win s3) p"
        using update_mode_panner[of "update_muted nm nv cm s3" p] Done by simp
      moreover have "trackIdx (this s4) = trackIdx (this s3)" "trackLen (this s4) = trackLen (this s3)"
        using update_mode_frame(10,11)[of "update_muted nm nv cm s3"] Done by simp_all
      ultimately show ?thesis using \<open>m = Done s3\<close> Done by simp
    next
      case (Threw e s4)
      have "panner_of (win s4) p = panner_of (win s3) p"
        using update_mode_panner[of "update_muted nm nv cm s3" p] Threw by simp
      moreover have "trackIdx (this s4) = trackIdx (this s3)" "trackLen (this s4) = trackLen (this s3)"
        using update_mode_frame(10,11)[of "update_muted nm nv cm s3"] Threw by simp_all
      ultimately show ?thesis using \<open>m = Done s3\<close> Threw by simp
    qed
  next
    case (Threw e s3)
    then show ?thesis by simp
  qed
  show ?thesis
    unfolding shouldComponentUpdate_def Let_def
    using assms
    by (auto simp add: tail pc panner_of_cong[of "win (attachTrack _ _)"] split: option.splits)
qed

text \<open>
  C4, amended: for a graph with its panner, whose \<open>scale\<close> is \<open>sc\<close>, and a computed
  position \<open>(x, y)\<close>: where panner nodes have the position AudioParams,
  \<open>updateSpatial\<close> sets \<open>positionX\<close> to \<open>x \<cdot> sc\<close> and \<open>positionY\<close> to
  \<open>y \<cdot> sc\<close>, whatever the global flag is; and while the global flag is not true,
  \<open>shouldComponentUpdate\<close> leaves the panner and the stored index and length as they
  are.
\<close>

theorem updateSpatial_sets_position:
  assumes "pannerNode (this s) = Some p" and "panner_of (win s) p = Some pn"
    and "scale pn = Some sc" and "calcLocation (this s) = (Num x, Num y)"
  shows "(panner_position_params (the_browser (win s)) \<longrightarrow>
            thrown (updateSpatial s) = None
            \<and> panner_of (win (state_of (updateSpatial s))) p
                = Some (pn\<lparr> positionX := x * sc, positionY := y * sc \<rparr>))
         \<and> (spatialAudio (win s) \<noteq> Some True \<longrightarrow>
            panner_of (win (state_of (shouldComponentUpdate np s))) p = Some pn
            \<and> trackIdx (this (state_of (shouldComponentUpdate np s))) = trackIdx (this s)
            \<and> trackLen (this (state_of (shouldComponentUpdate np s))) = trackLen (this s))"
proof -
  have "nodes (win s) p = Some (PannerNode pn)"
    using assms(2) by (auto simp add: panner_of_def split: option.splits audio_node.splits)
  then have "panner_position_params (the_browser (win s)) \<Longrightarrow>
      thrown (updateSpatial s) = None
      \<and> panner_of (win (state_of (updateSpatial s))) p
          = Some (pn\<lparr> positionX := x * sc, positionY := y * sc \<rparr>)"
    using assms by (simp add: updateSpatial_def set_panner_def panner_of_def Let_def)
  then show ?thesis
    using shouldComponentUpdate_disabled[of s np p] assms(2) by auto
qed

theorem updateSpatial_sets_position_witness:
  "panner_of (win (state_of (updateSpatial built_a))) 3
     = Some (default_panner\<lparr> panningModel := ''HRTF'', coneOuterAngle := 0, scale := Some 1,
                             positionX := - (1 / 2) * 1, positionY := 87 / 100 * 1 \<rparr>)
   \<and> panner_of (win (state_of (shouldComponentUpdate (sample_props ''a'') built_a))) 3
     = Some (default_panner\<lparr> panningModel := ''HRTF'', coneOuterAngle := 0, scale := Some 1 \<rparr>)"
proof -
  have 1: "pannerNode (this built_a) = Some 3" by (simp add: built_a_this)
  have 2: "panner_of (win built_a) 3
            = Some (default_panner\<lparr> panningModel := ''HRTF'', coneOuterAngle := 0, scale := Some 1 \<rparr>)"
    by (simp add: built_a_win panner_of_def)
  have 3: "scale (default_panner\<lparr> panningModel := ''HRTF'', coneOuterAngle := 0, scale := Some 1 \<rparr>) = Some 1"
    by simp
  have 4: "calcLocation (this built_a) = (Num (- (1 / 2)), Num (87 / 100))"
    by (simp add: built_a_this calcLocation_0_2)
  have 5: "panner_position_params (the_browser (win built_a))"
    by (simp add: built_a_win sample_browser_def)
  have 6: "spatialAudio (win built_a) \<noteq> Some True" by (simp add: built_a_win)
  show ?thesis
    using updateSpatial_sets_position[OF 1 2 3 4, where np = "sample_props ''a''"] 5 6 by simp
qed

text \<open>
  Without the position AudioParams, the second \<open>setPosition\<close> call overwrites the first:
  the panner ends at \<open>(y \<cdot> sc, 0, 0)\<close>.
\<close>

lemma updateSpatial_legacy:
  assumes "pannerNode (this s) = Some p" and "panner_of (win s) p = Some pn"
    and "scale pn = Some sc" and "calcLocation (this s) = (Num x, Num y)"
    and "\<not> panner_position_params (the_browser (win s))"
  shows "panner_of (win (state_of (updateSpatial s))) p
           = Some (pn\<lparr> positionX := y * sc, positionY := 0, positionZ := 0 \<rparr>)"
proof -
  have "nodes (win s) p = Some (PannerNode pn)"
    using assms(2) by (auto simp add: panner_of_def split: option.splits audio_node.splits)
  then show ?thesis
    using assms by (simp add: updateSpatial_def set_panner_def panner_of_def Let_def)
qed

section \<open>Index lookup and updates for an element that is not in the collection\<close>

lemma getIndex_loop_not_found:
  "(\<And>el. r = Some el \<Longrightarrow> Some (Element (el_id el)) \<notin> set tracks) \<Longrightarrow>
   \<exists>e. getIndex_loop tracks r i = Inl e"
  by (induction tracks r i rule: getIndex_loop.induct) (auto split: option.splits)

lemma getIndex_total: "audioTracks w \<noteq> None \<Longrightarrow> \<exists>i. getIndex w t = Inr i"
  by (auto simp add: getIndex_def split: option.splits sum.splits)

lemma thrown_andThen:
  "thrown (andThen m f) = (case thrown m of Some e \<Rightarrow> Some e | None \<Rightarrow> thrown (f (state_of m)))"
  by (cases m) simp_all

lemma update_volume_no_throw:
  assumes "gain_value (win s) g = Some cv"
    and "\<forall>x. nv = JNumber (Num x) \<longrightarrow> fits_float x"
    and "nv \<noteq> JNumber PosInfinity" and "nv \<noteq> JNumber NegInfinity"
  shows "thrown (update_volume nv g cv s) = None"
  using assms
  by (auto simp add: update_volume_def set_gain_def gain_value_def
      split: jsval.splits jsnum.splits option.splits audio_node.splits)

lemma update_mode_no_throw:
  "source (this s) \<noteq> None \<Longrightarrow> pannerNode (this s) \<noteq> None \<Longrightarrow> gainNode (this s) \<noteq> None \<Longrightarrow>
   thrown (update_mode s) = None"
  by (auto simp add: update_mode_def switchCondition_def Let_def)

lemma updateSpatial_no_throw:
  "pannerNode (this s) = Some p \<Longrightarrow> panner_of (win s) p = Some pn \<Longrightarrow> scale pn = Some sc \<Longrightarrow>
   trackIdx (this s) = Some i \<Longrightarrow> trackLen (this s) = Some n \<Longrightarrow>
   thrown (updateSpatial s) = None"
  by (auto simp add: updateSpatial_def calcLocation_def set_panner_def panner_of_def Let_def
      split: option.splits audio_node.splits)

lemma update_position_no_throw:
  assumes "audioTracks (win s) \<noteq> None" and "pannerNode (this s) = Some p"
    and "panner_of (win s) p = Some pn" and "scale pn = Some sc"
  shows "thrown (update_position s) = None"
proof -
  obtain i where i: "getIndex (win s) (this s) = Inr i"
    using getIndex_total[OF assms(1)] by blast
  obtain tracks where t: "audioTracks (win s) = Some tracks"
    using assms(1) by blast
  have "thrown (updateSpatial (s\<lparr> this := (this s)\<lparr> trackIdx := Some i,
                                       trackLen := Some (length tracks) \<rparr> \<rparr>)) = None"
    by (rule updateSpatial_no_throw[where p = p and pn = pn and sc = sc]) (use assms in simp_all)
  then show ?thesis
    by (simp add: update_position_def i t Let_def)
qed

lemma update_tail_no_throw:
  assumes "gainNode (this s) = Some g" and "gain_value (win s) g = Some cv"
    and "source (this s) \<noteq> None" and "pannerNode (this s) = Some p"
    and "panner_of (win s) p = Some pn" and "scale pn = Some sc"
    and "audioTracks (win s) \<noteq> None"
    and "\<forall>x. nv = JNumber (Num x) \<longrightarrow> fits_float x"
    and "nv \<noteq> JNumber PosInfinity" and "nv \<noteq> JNumber NegInfinity"
  shows "thrown (andThen (update_volume nv g cv s)
                   (\<lambda>s3. andThen (update_mode (update_muted nm nv' cm s3)) update_position)) = None"
proof -
  let ?s3 = "state_of (update_volume nv g cv s)"
  let ?s4 = "update_muted nm nv' cm ?s3"
  let ?s5 = "state_of (update_mode ?s4)"
  have 1: "thrown (update_volume nv g cv s) = None"
    by (rule update_volume_no_throw[OF assms(2) assms(8) assms(9) assms(10)])
  have 2: "thrown (update_mode ?s4) = None"
    by (rule update_mode_no_throw) (use assms in simp_all)
  have 3: "thrown (update_position ?s5) = None"
    by (rule update_position_no_throw[where p = p and pn = pn and sc = sc])
      (use assms in simp_all)
  show ?thesis
    by (simp add: thrown_andThen 1 2 3)
qed

lemma shouldComponentUpdate_no_throw:
  assumes "mount_completed s" and "audioTrack (the_props (this s)) \<noteq> None"
    and v: "\<forall>x. volume np = JNumber (Num x) \<longrightarrow> fits_float x"
       "volume np \<noteq> JNumber PosInfinity" "volume np \<noteq> JNumber NegInfinity"
  shows "thrown (shouldComponentUpdate np s) = None"
proof -
  from assms(1,2) obtain cur c g cv p pn where
    b: "audioTrack (the_props (this s)) = Some cur" "the_context (win s) = Some c"
       "gainNode (this s) = Some g" "gain_value (win s) g = Some cv"
       "pannerNode (this s) = Some p" "panner_of (win s) p = Some pn" "scale pn = Some 1"
       "source (this s) \<noteq> None" "audioTracks (win s) \<noteq> None"
    by (auto simp add: mount_completed_def audioTracks_def split: option.splits)
  have gv: "gain_value (w\<lparr> the_context := c' \<rparr>) = gain_value w" for w c'
    by (simp add: gain_value_def fun_eq_iff)
  have pc: "panner_of (w\<lparr> the_context := c' \<rparr>) = panner_of w" for w c'
    by (simp add: panner_of_def fun_eq_iff)
  have at: "audioTracks (w\<lparr> the_context := c' \<rparr>) = audioTracks w" for w c'
    by (simp add: audioTracks_def)
  have tail: "thrown (andThen (update_volume (volume np) g cv s2)
                   (\<lambda>s3. andThen (update_mode (update_muted (muted np) (volume np) cm s3)) update_position)) = None"
    if "this s2 = this s" "nodes (win s2) = nodes (win s)" "audioTracks (win s2) = audioTracks (win s)"
    for s2 cm
    by (rule update_tail_no_throw[where p = p and pn = pn and sc = 1])
      (use that b v in \<open>simp_all add: gain_value_cong[of "win s2" "win s"]
          panner_of_cong[of "win s2" "win s"]\<close>)
  show ?thesis
    unfolding shouldComponentUpdate_def Let_def
    using b
    by (auto simp add: tail gv pc at gain_value_cong[of "win (attachTrack _ _)"]
        split: option.splits)
qed

text \<open>
  A \<open>componentDidMount\<close> that found its audio element and ran to its end leaves a
  completed graph, whatever the track prop is.
\<close>

lemma setupSpatial_completed:
  assumes "setupSpatial s = Done s'" and "audioTracks_assigned (win s)"
  shows "mount_completed s'"
  using assms
  by (auto simp add: setupSpatial_def create_node_def connect_def
      mount_completed_def gain_value_def panner_of_def Let_def
      split: option.splits)

lemma mount_setup_completed:
  assumes "mount_setup el s = Done s'"
  shows "mount_completed s'"
proof -
  from assms obtain s3 where "setupSpatial s3 = Done s'" and "audioTracks_assigned (win s3)"
    by (auto simp add: mount_setup_def create_node_def Let_def
        split: if_splits option.splits sum.splits)
  then show ?thesis by (rule setupSpatial_completed)
qed

lemma mount_completed_frame:
  assumes "mount_completed s"
    and "the_context (win s') = the_context (win s)"
    and "audioTracks_assigned (win s') = audioTracks_assigned (win s)"
    and "source (this s') = source (this s)"
    and "gainNode (this s') = gainNode (this s)"
    and "pannerNode (this s') = pannerNode (this s)"
    and "\<And>g. gain_value (win s) g \<noteq> None \<Longrightarrow> gain_value (win s') g \<noteq> None"
    and "\<And>p pn. panner_of (win s) p = Some pn \<Longrightarrow> scale pn = Some 1 \<Longrightarrow>
           \<exists>pn'. panner_of (win s') p = Some pn' \<and> scale pn' = Some 1"
  shows "mount_completed s'"
proof -
  from assms(1) obtain g p pn where
    b: "the_context (win s) \<noteq> None" "audioTracks_assigned (win s)" "source (this s) \<noteq> None"
       "gainNode (this s) = Some g" "gain_value (win s) g \<noteq> None"
       "pannerNode (this s) = Some p" "panner_of (win s) p = Some pn" "scale pn = Some 1"
    by (auto simp add: mount_completed_def split: option.splits)
  obtain pn' where p': "panner_of (win s') p = Some pn'" "scale pn' = Some 1"
    using assms(8)[OF b(7) b(8)] by blast
  have g': "gain_value (win s') g \<noteq> None"
    by (rule assms(7)[OF b(5)])
  show ?thesis
    unfolding mount_completed_def
    using b p' g' assms(2-6) by simp
qed

lemma updateSpatial_win [simp]:
  "the_context (win (state_of (updateSpatial s))) = the_context (win s)"
  "audioTracks_assigned (win (state_of (updateSpatial s))) = audioTracks_assigned (win s)"
  by (simp_all add: updateSpatial_def set_panner_def Let_def
      split: prod.splits option.splits audio_node.splits jsnum.splits)

lemma updateSpatial_scale:
  assumes "panner_of (win s) p = Some pn" and "scale pn = Some 1"
  shows "\<exists>pn'. panner_of (win (state_of (updateSpatial s))) p = Some pn' \<and> scale pn' = Some 1"
proof (cases "pannerNode (this s) = Some p")
  case True
  have n: "nodes (win s) p = Some (PannerNode pn)"
    using assms(1) by (auto simp add: panner_of_def split: option.splits audio_node.splits)
  show ?thesis
    using True n assms
    by (auto simp add: updateSpatial_def set_panner_def panner_of_def Let_def
        split: prod.splits jsnum.splits)
next
  case False
  have "panner_of (win (state_of (updateSpatial s))) p = panner_of (win s) p"
    using False updateSpatial_nodes[of s] by (auto simp add: panner_of_def)
  then show ?thesis using assms by simp
qed

lemma updateSpatial_completed:
  assumes "mount_completed s"
  shows "mount_completed (state_of (updateSpatial s))"
  by (rule mount_completed_frame[OF assms]) (simp_all add: updateSpatial_scale)

lemma set_gain_keeps_gain:
  "gain_value (win s) g' \<noteq> None \<Longrightarrow> gain_value (win (state_of (set_gain g v s))) g' \<noteq> None"
  by (simp add: set_gain_gain split: jsnum.splits)

lemma set_gain_context [simp]:
  "audioTracks_assigned (win (state_of (set_gain g v s))) = audioTracks_assigned (win s)"
  by (simp add: set_gain_def split: option.splits audio_node.splits jsnum.splits)

lemma play_frame [simp]:
  "win (play s) = win s"
  "gainNode (this (play s)) = gainNode (this s)"
  "pannerNode (this (play s)) = pannerNode (this s)"
  "source (this (play s)) = source (this s)"
  "the_props (this (play s)) = the_props (this s)"
  by (simp_all add: play_def split: option.splits)

lemma mount_props_completed:
  assumes "mount_completed s"
  shows "mount_completed (state_of (mount_props s))"
proof -
  define s5 where "s5 = (if autoPlay (the_props (this s)) then play s else s)"
  have 5: "mount_completed s5"
    unfolding s5_def by (rule mount_completed_frame[OF assms]) simp_all
  have sg: "mount_completed (state_of (set_gain g v s5))" for g v
    by (rule mount_completed_frame[OF 5]) (simp_all add: set_gain_keeps_gain)
  have sm: "mount_completed (set_muted b s')" if "mount_completed s'" for b s'
    by (rule mount_completed_frame[OF that]) simp_all
  define m where "m = (case volume (the_props (this s)) of
              JNumber v \<Rightarrow>
                (case gainNode (this s5) of
                   None \<Rightarrow> Threw TypeError s5
                 | Some g \<Rightarrow> set_gain g v s5)
            | _ \<Rightarrow> Done s5)"
  have m: "mount_completed (state_of m)"
    unfolding m_def using 5 sg by (simp split: jsval.splits option.splits)
  have mp: "mount_props s = andThen m (\<lambda>s6.
           Done (case muted (the_props (this s)) of
                   JBoolean b \<Rightarrow> set_muted b s6
                 | _ \<Rightarrow> s6))"
    unfolding mount_props_def Let_def m_def s5_def by (rule refl)
  show ?thesis
  proof (cases m)
    case (Done s6)
    with m have "mount_completed s6" by simp
    then show ?thesis
      unfolding mp Done by (simp add: sm split: jsval.splits)
  next
    case (Threw e s6)
    with m show ?thesis unfolding mp Threw by simp
  qed
qed

lemma componentDidMount_completed:
  assumes "componentDidMount s = Done s'" and "ref (this s) \<noteq> None"
  shows "mount_completed s'"
proof -
  let ?s0 = "attachTrack (audioTrack (the_props (this s))) s"
  obtain s1 where i: "initContext ?s0 = Done s1"
    using assms(1) by (cases "initContext ?s0") (simp_all add: componentDidMount_def)
  have t1: "this s1 = this s"
    using initContext_frame(2)[of ?s0] i by (simp add: attachTrack_def split: option.splits)
  obtain el where el: "ref (this s1) = Some el" using assms(2) t1 by auto
  have m: "andThen (andThen (mount_setup el s1) updateSpatial) mount_props = Done s'"
    using assms(1) i el by (simp add: componentDidMount_def)
  obtain s2 where s2: "mount_setup el s1 = Done s2"
    using m by (cases "mount_setup el s1") simp_all
  obtain s3 where s3: "updateSpatial s2 = Done s3"
    using m s2 by (cases "updateSpatial s2") simp_all
  have s': "mount_props s3 = Done s'" using m s2 s3 by simp
  have "mount_completed s3"
    using updateSpatial_completed[OF mount_setup_completed[OF s2]] s3 by simp
  then show ?thesis
    using mount_props_completed[of s3] s' by simp
qed

text \<open>
  When the component's element is the first child of no item, the \<open>try\<close> block throws
  (a TypeError at an item without first child, or the ReferenceError after the loop), and
  the lookup answers \<open>0\<close>.
\<close>

lemma getIndex_not_found:
  assumes "audioTracks_assigned w"
    and nf: "\<forall>el. ref t = Some el \<longrightarrow> Some (Element (el_id el)) \<notin> set (document_audio_tracks w)"
  shows "getIndex w t = Inr 0"
proof -
  have "\<exists>e. getIndex_loop (document_audio_tracks w) (ref t) 0 = Inl e"
    by (rule getIndex_loop_not_found) (use nf in blast)
  then obtain e where "getIndex_loop (document_audio_tracks w) (ref t) 0 = Inl e" ..
  then show ?thesis using assms(1) by (simp add: getIndex_def audioTracks_def)
qed

text \<open>
  C5, amended: once \<open>window.audioTracks\<close> is assigned, \<open>getIndex\<close> throws for no state
  of the collection; and for a graph that \<open>componentDidMount\<close> has completed, with a
  track prop that is not null, an update whose next volume is not a number, is \<open>NaN\<close>,
  or is a finite number within the single-precision range never throws, whether or not the
  component's element is in the collection. (Such an update is not a no-op: the volume is
  applied without consulting the collection, and the position follows the index that the
  lookup answers.)
\<close>

theorem getIndex_never_throws:
  assumes "audioTracks_assigned w"
  shows "(\<exists>i. getIndex w t = Inr i)
         \<and> (mount_completed \<lparr> win = w, this = t \<rparr> \<and> audioTrack (the_props t) \<noteq> None
              \<and> (\<forall>x. volume np = JNumber (Num x) \<longrightarrow> fits_float x)
              \<and> volume np \<noteq> JNumber PosInfinity \<and> volume np \<noteq> JNumber NegInfinity
              \<longrightarrow> thrown (shouldComponentUpdate np \<lparr> win = w, this = t \<rparr>) = None)"
proof -
  have "\<exists>i. getIndex w t = Inr i"
    by (rule getIndex_total) (use assms in \<open>simp add: audioTracks_def\<close>)
  moreover have "thrown (shouldComponentUpdate np \<lparr> win = w, this = t \<rparr>) = None"
    if "mount_completed \<lparr> win = w, this = t \<rparr>" "audioTrack (the_props t) \<noteq> None"
      "\<forall>x. volume np = JNumber (Num x) \<longrightarrow> fits_float x"
      "volume np \<noteq> JNumber PosInfinity" "volume np \<noteq> JNumber NegInfinity"
    by (rule shouldComponentUpdate_no_throw) (use that in simp_all)
  ultimately show ?thesis by blast
qed

text \<open>
  Outside these conditions the update does throw: on a null track prop at
  \<open>this.props.audioTrack.participantId\<close>, and on an infinite or out-of-range next volume
  at the assignment of the gain, which the guard lets through.
\<close>

lemma shouldComponentUpdate_null_track:
  "audioTrack (the_props (this s)) = None \<Longrightarrow> shouldComponentUpdate np s = Threw TypeError s"
  by (simp add: shouldComponentUpdate_def)

lemma update_volume_out_of_range:
  assumes "gain_value (win s) g = Some cv"
    and "nv = JNumber PosInfinity \<or> nv = JNumber NegInfinity
         \<or> (\<exists>x. nv = JNumber (Num x) \<and> \<not> fits_float x \<and> x \<noteq> cv)"
  shows "update_volume nv g cv s = Threw TypeError s"
  using assms
  by (auto simp add: update_volume_def set_gain_def gain_value_def
      split: option.splits audio_node.splits)

lemma departed_b_win:
  "win departed_b =
     \<lparr> the_browser = sample_browser,
       the_context = Some \<lparr> state = Running, resume_calls = 0,
                             listener = \<lparr> forward = (0, 0, -1), up = (0, 1, 0),
                                          listenerPosition = (0, 0, 1) \<rparr>,
                             destination = 0 \<rparr>,
       spatialAudio = Some True, audioTracks_assigned = True,
       document_audio_tracks = [Some (Element ''remoteAudio_a''), Some (Element ''remoteAudio_c'')],
       nodes = (\<lambda>_. None)(0 := Some DestinationNode, 1 := Some MediaStreamSource,
                 3 := Some (PannerNode (default_panner\<lparr> positionX := - (1 / 2), positionY := 87 / 100,
                        panningModel := ''HRTF'', coneOuterAngle := 0, scale := Some 1 \<rparr>)),
                 2 := Some (GainNode 1),
                 4 := Some MediaStreamSource,
                 6 := Some (PannerNode (default_panner\<lparr> positionX := 1 / 2, positionY := 87 / 100,
                        panningModel := ''HRTF'', coneOuterAngle := 0, scale := Some 1 \<rparr>)),
                 5 := Some (GainNode 1)),
       next_id = 7, edges = [(5, 0), (6, 5), (4, 6), (2, 0), (3, 2), (1, 3)],
       attachments = [(''b'', ''remoteAudio_b''), (''a'', ''remoteAudio_a'')],
       notifications = [''enabled''] \<rparr>"
  by (simp add: departed_b_def mounted_b_win toggleSpatialAudio_def)

lemma departed_b_this: "this departed_b = this mounted_b"
  by (simp add: departed_b_def)

theorem getIndex_never_throws_witness:
  "Some (Element ''remoteAudio_b'') \<notin> set (document_audio_tracks (win departed_b))
   \<and> (\<exists>i. getIndex (win departed_b) (this departed_b) = Inr i)
   \<and> thrown (shouldComponentUpdate ((sample_props ''b'')\<lparr> volume := JNumber (Num (3 / 10)) \<rparr>)
               departed_b) = None"
proof -
  let ?np = "(sample_props ''b'')\<lparr> volume := JNumber (Num (3 / 10)) \<rparr>"
  have 1: "audioTracks_assigned (win departed_b)" by (simp add: departed_b_win)
  have 2: "Some (Element ''remoteAudio_b'') \<notin> set (document_audio_tracks (win departed_b))"
    by (simp add: departed_b_win)
  have 3: "mount_completed \<lparr> win = win departed_b, this = this departed_b \<rparr>"
    by (simp add: mount_completed_def departed_b_win departed_b_this mounted_b_this sample_defs
        gain_value_def panner_of_def)
  have 4: "\<lparr> win = win departed_b, this = this departed_b \<rparr> = departed_b" by simp
  have 5: "audioTrack (the_props (this departed_b)) \<noteq> None"
    by (simp add: departed_b_this mounted_b_this sample_defs)
  have 6: "\<forall>x. volume ?np = JNumber (Num x) \<longrightarrow> fits_float x"
  proof (intro allI impI)
    fix x assume "volume ?np = JNumber (Num x)"
    then have "x * 10 = 3" by simp
    then have "\<bar>x\<bar> \<le> 1" by linarith
    then show "fits_float x" by (rule fits_float_unit)
  qed
  have 7: "volume ?np \<noteq> JNumber PosInfinity" "volume ?np \<noteq> JNumber NegInfinity"
    by simp_all
  have "(\<exists>i. getIndex (win departed_b) (this departed_b) = Inr i)
        \<and> thrown (shouldComponentUpdate ?np \<lparr> win = win departed_b, this = this departed_b \<rparr>) = None"
    using getIndex_never_throws[OF 1, where t = "this departed_b" and np = ?np] 3 5 6 7
    by blast
  then show ?thesis
    unfolding 4 using 2 by blast
qed

text \<open>
  C5, as stated: an update for a participant whose element is not in the collection is a
  no-op and never raises. On the sample page, with \<open>b\<close> gone from the collection and
  spatial audio on, an update of \<open>b\<close> with volume \<open>0.3\<close> does not throw, but it stores
  index \<open>0\<close> in place of \<open>1\<close>, moves the panner from \<open>x = 0.5\<close> to \<open>x = -0.5\<close>, and
  sets the gain to \<open>0.3\<close>; and an update of \<open>b\<close> with volume \<open>Infinity\<close> throws a
  TypeError.
\<close>

theorem update_unknown_participant_counterexample:
  "Some (Element ''remoteAudio_b'') \<notin> set (document_audio_tracks (win departed_b))
   \<and> trackIdx (this departed_b) = Some 1
   \<and> panner_of (win departed_b) 6
       = Some (default_panner\<lparr> positionX := 1 / 2, positionY := 87 / 100,
                 panningModel := ''HRTF'', coneOuterAngle := 0, scale := Some 1 \<rparr>)
   \<and> gain_value (win departed_b) 5 = Some 1
   \<and> thrown (shouldComponentUpdate ((sample_props ''b'')\<lparr> volume := JNumber (Num (3 / 10)) \<rparr>)
               departed_b) = None
   \<and> trackIdx (this (state_of (shouldComponentUpdate
         ((sample_props ''b'')\<lparr> volume := JNumber (Num (3 / 10)) \<rparr>) departed_b))) = Some 0
   \<and> panner_of (win (state_of (shouldComponentUpdate
         ((sample_props ''b'')\<lparr> volume := JNumber (Num (3 / 10)) \<rparr>) departed_b))) 6
       = Some (default_panner\<lparr> positionX := - (1 / 2), positionY := 87 / 100,
                 panningModel := ''HRTF'', coneOuterAngle := 0, scale := Some 1 \<rparr>)
   \<and> gain_value (win (state_of (shouldComponentUpdate
         ((sample_props ''b'')\<lparr> volume := JNumber (Num (3 / 10)) \<rparr>) departed_b))) 5 = Some (3 / 10)
   \<and> thrown (shouldComponentUpdate ((sample_props ''b'')\<lparr> volume := JNumber PosInfinity \<rparr>)
               departed_b) = Some TypeError"
proof -
  have d: "departed_b = \<lparr> win = win departed_b, this = this mounted_b \<rparr>"
    by (simp add: departed_b_def)
  have before: "Some (Element ''remoteAudio_b'') \<notin> set (document_audio_tracks (win departed_b))
      \<and> trackIdx (this departed_b) = Some 1
      \<and> panner_of (win departed_b) 6
          = Some (default_panner\<lparr> positionX := 1 / 2, positionY := 87 / 100,
                    panningModel := ''HRTF'', coneOuterAngle := 0, scale := Some 1 \<rparr>)
      \<and> gain_value (win departed_b) 5 = Some 1"
    by (simp add: departed_b_win departed_b_this mounted_b_this gain_value_def panner_of_def)
  have after: "thrown (shouldComponentUpdate ((sample_props ''b'')\<lparr> volume := JNumber (Num (3 / 10)) \<rparr>)
               departed_b) = None
      \<and> trackIdx (this (state_of (shouldComponentUpdate
            ((sample_props ''b'')\<lparr> volume := JNumber (Num (3 / 10)) \<rparr>) departed_b))) = Some 0
      \<and> panner_of (win (state_of (shouldComponentUpdate
            ((sample_props ''b'')\<lparr> volume := JNumber (Num (3 / 10)) \<rparr>) departed_b))) 6
          = Some (default_panner\<lparr> positionX := - (1 / 2), positionY := 87 / 100,
                    panningModel := ''HRTF'', coneOuterAngle := 0, scale := Some 1 \<rparr>)
      \<and> gain_value (win (state_of (shouldComponentUpdate
            ((sample_props ''b'')\<lparr> volume := JNumber (Num (3 / 10)) \<rparr>) departed_b))) 5 = Some (3 / 10)"
    apply (subst (1 2 3 4) d)
    apply (simp add: departed_b_win departed_b_this mounted_b_this)
    apply (simp add: shouldComponentUpdate_def update_volume_def update_muted_def update_mode_def
        update_position_def switchCondition_def updateSpatial_def set_gain_def set_panner_def
        getIndex_def audioTracks_def connect_def disconnect_def gain_value_def panner_of_def
        sample_defs Let_def calcLocation_0_2)
    done
  have infinite: "thrown (shouldComponentUpdate ((sample_props ''b'')\<lparr> volume := JNumber PosInfinity \<rparr>)
               departed_b) = Some TypeError"
    apply (subst d)
    apply (simp add: departed_b_win departed_b_this mounted_b_this)
    apply (simp add: shouldComponentUpdate_def update_volume_def set_gain_def gain_value_def
        sample_defs Let_def)
    done
  from before after infinite show ?thesis
    by (elim conjE, intro conjI)
qed

text \<open>
  So does a finite next volume beyond the single-precision range, as \<open>10^39\<close>: the update
  throws, and the gain stays as it was.
\<close>

lemma update_huge_volume_throws:
  "thrown (shouldComponentUpdate ((sample_props ''b'')\<lparr> volume := JNumber (Num (10 ^ 39)) \<rparr>)
             departed_b) = Some TypeError
   \<and> gain_value (win (state_of (shouldComponentUpdate
         ((sample_props ''b'')\<lparr> volume := JNumber (Num (10 ^ 39)) \<rparr>) departed_b))) 5 = Some 1"
proof -
  have d: "departed_b = \<lparr> win = win departed_b, this = this mounted_b \<rparr>"
    by (simp add: departed_b_def)
  show ?thesis
    apply (subst (1 2) d)
    apply (simp add: departed_b_win departed_b_this mounted_b_this)
    apply (simp add: shouldComponentUpdate_def update_volume_def set_gain_def gain_value_def
        fits_float_def sample_defs Let_def)
    done
qed

section \<open>Wiring and the mode switch\<close>

text \<open>setupSpatial wires the panner path whatever the flag is.\<close>

lemma setupSpatial_path:
  assumes "setupSpatial s = Done s'"
  shows "path_spatial s' \<and> spatialAudio_local (this s') = spatialAudio (win s)"
  using assms
  by (auto simp add: setupSpatial_def create_node_def connect_def path_spatial_def Let_def
      split: option.splits)

text \<open>switchCondition wires by the component's flag.\<close>

lemma switchCondition_to_mono:
  assumes "spatialAudio_local (this s) = Some True"
    and "source (this s) = Some src" and "pannerNode (this s) = Some p"
    and "gainNode (this s) = Some g" and "p \<noteq> g"
  shows "thrown (switchCondition s) = None
         \<and> path_mono (state_of (switchCondition s))
         \<and> \<not> path_spatial (state_of (switchCondition s))"
  using assms
  by (auto simp add: switchCondition_def connect_def disconnect_def path_mono_def
      path_spatial_def Let_def)

lemma switchCondition_to_spatial:
  assumes "spatialAudio_local (this s) \<noteq> Some True"
    and "source (this s) = Some src" and "pannerNode (this s) = Some p"
    and "gainNode (this s) = Some g" and "p \<noteq> g" and "src \<noteq> p"
  shows "thrown (switchCondition s) = None
         \<and> path_spatial (state_of (switchCondition s))
         \<and> \<not> path_mono (state_of (switchCondition s))"
  using assms
  by (auto simp add: switchCondition_def connect_def disconnect_def path_mono_def
      path_spatial_def Let_def)

text \<open>
  C2 says that a graph is wired by the current global flag, and that a graph constructed
  while the flag is false is wired source to gain, without the panner. On the sample page
  \<open>componentDidMount\<close> completes with the flag false and the graph wired source to panner
  to gain, with no connection from source to gain.
\<close>

theorem mount_wires_panner_while_flag_false:
  "componentDidMount \<lparr> win = sample_window, this = component_a \<rparr> = Done mounted_a
   \<and> spatialAudio (win mounted_a) = Some False
   \<and> path_spatial mounted_a \<and> \<not> path_mono mounted_a \<and> \<not> wired_by_flag mounted_a"
proof -
  have "thrown (componentDidMount \<lparr> win = sample_window, this = component_a \<rparr>) = None"
    by (simp add: sample_defs method_defs Let_def calcLocation_0_2)
  then have "componentDidMount \<lparr> win = sample_window, this = component_a \<rparr> = Done mounted_a"
    unfolding mounted_a_def
    by (cases "componentDidMount \<lparr> win = sample_window, this = component_a \<rparr>") simp_all
  then show ?thesis
    by (simp add: path_spatial_def path_mono_def wired_by_flag_def mounted_a_win mounted_a_this)
qed

lemmas update_defs = shouldComponentUpdate_def update_volume_def update_muted_def update_mode_def
  update_position_def switchCondition_def updateSpatial_def set_gain_def set_panner_def
  set_muted_def getIndex_def audioTracks_def connect_def disconnect_def gain_value_def
  mode_switch_def toggleSpatialAudio_def

lemma mounted_a_eq: "mounted_a = \<lparr> win = win mounted_a, this = this mounted_a \<rparr>"
  by simp

lemma switched_once_a_eq:
  "mode_switch (sample_props ''a'') mounted_a =
     Done \<lparr> win = (win mounted_a)\<lparr> spatialAudio := Some True, notifications := [''enabled''],
                                   edges := [(1, 3), (2, 0), (3, 2)] \<rparr>,
            this = (this mounted_a)\<lparr> spatialAudio_local := Some True \<rparr> \<rparr>"
  apply (subst mounted_a_eq)
  apply (simp add: mounted_a_win mounted_a_this)
  apply (simp add: update_defs sample_defs Let_def)
  done

lemma switched_twice_a_eq:
  "mode_switch (sample_props ''a'') switched_once_a =
     Done \<lparr> win = (win mounted_a)\<lparr> spatialAudio := Some False,
                                   notifications := [''enabled'', ''disabled''],
                                   edges := [(1, 2), (2, 0)] \<rparr>,
            this = this mounted_a \<rparr>"
  unfolding switched_once_a_def switched_once_a_eq
  apply (simp add: mounted_a_win mounted_a_this)
  apply (simp add: update_defs sample_defs Let_def)
  done

text \<open>
  C3 says that two passes of the mode switch restore the connections of every graph. From
  the graph mounted on the sample page, neither pass throws, the flag is false again after
  the second, the nodes and the audio element are untouched, but the connections, which
  were source to panner, panner to gain and gain to destination, are now source to gain and
  gain to destination.
\<close>

theorem double_switch_after_mount:
  "thrown (mode_switch (sample_props ''a'') mounted_a) = None
   \<and> thrown (mode_switch (sample_props ''a'') switched_once_a) = None
   \<and> spatialAudio (win switched_twice_a) = spatialAudio (win mounted_a)
   \<and> edges (win mounted_a) = [(2, 0), (3, 2), (1, 3)]
   \<and> edges (win switched_once_a) = [(1, 3), (2, 0), (3, 2)]
   \<and> edges (win switched_twice_a) = [(1, 2), (2, 0)]
   \<and> set (edges (win switched_twice_a)) \<noteq> set (edges (win mounted_a))
   \<and> nodes (win switched_twice_a) = nodes (win mounted_a)
   \<and> ref (this switched_twice_a) = ref (this mounted_a)"
proof -
  have 1: "switched_once_a = \<lparr> win = (win mounted_a)\<lparr> spatialAudio := Some True, notifications := [''enabled''],
                                   edges := [(1, 3), (2, 0), (3, 2)] \<rparr>,
            this = (this mounted_a)\<lparr> spatialAudio_local := Some True \<rparr> \<rparr>"
    by (simp add: switched_once_a_def switched_once_a_eq)
  have 2: "switched_twice_a = \<lparr> win = (win mounted_a)\<lparr> spatialAudio := Some False,
                                   notifications := [''enabled'', ''disabled''],
                                   edges := [(1, 2), (2, 0)] \<rparr>,
            this = this mounted_a \<rparr>"
    by (simp add: switched_twice_a_def switched_twice_a_eq)
  have t1: "thrown (mode_switch (sample_props ''a'') mounted_a) = None"
    by (simp add: switched_once_a_eq)
  have t2: "thrown (mode_switch (sample_props ''a'') switched_once_a) = None"
    by (simp add: switched_twice_a_eq)
  have f: "spatialAudio (win switched_twice_a) = spatialAudio (win mounted_a)"
    by (simp add: 2 mounted_a_win)
  have e0: "edges (win mounted_a) = [(2, 0), (3, 2), (1, 3)]"
    by (simp add: mounted_a_win)
  have e1: "edges (win switched_once_a) = [(1, 3), (2, 0), (3, 2)]"
    by (simp add: 1)
  have e2: "edges (win switched_twice_a) = [(1, 2), (2, 0)]"
    by (simp add: 2)
  have ne: "set (edges (win switched_twice_a)) \<noteq> set (edges (win mounted_a))"
    unfolding e0 e2 by auto
  have n: "nodes (win switched_twice_a) = nodes (win mounted_a)"
    by (simp add: 2)
  have r: "ref (this switched_twice_a) = ref (this mounted_a)"
    by (simp add: 2)
  show ?thesis
    by (intro conjI) (rule t1 t2 f e0 e1 e2 ne n r)+
qed

lemma toggle_frame [simp]:
  "edges (toggleSpatialAudio w) = edges w"
  "nodes (toggleSpatialAudio w) = nodes w"
  "spatialAudio (toggleSpatialAudio w) = Some (spatialAudio w \<noteq> Some True)"
  by (simp_all add: toggleSpatialAudio_def Let_def)

lemma update_mode_switch_edges:
  assumes "source (this s) = Some src" and "pannerNode (this s) = Some p"
    and "gainNode (this s) = Some g" and "spatialAudio (win s) \<noteq> spatialAudio_local (this s)"
  shows "update_mode s =
           Done (s\<lparr> win := (win s)\<lparr> edges :=
                      (if spatialAudio_local (this s) = Some True
                       then List.insert (src, g)
                              (filter (\<lambda>e. fst e \<noteq> p) (filter (\<lambda>e. fst e \<noteq> src) (edges (win s))))
                       else List.insert (p, g) (List.insert (src, p)
                              (filter (\<lambda>e. fst e \<noteq> src) (edges (win s))))) \<rparr>,
                   this := (this s)\<lparr> spatialAudio_local := spatialAudio (win s) \<rparr> \<rparr>)"
  using assms
  by (simp add: update_mode_def switchCondition_def connect_def disconnect_def Let_def)

lemma out_edges_spatial:
  fixes E :: "('a \<times> 'a) set"
  assumes H: "{e \<in> E. fst e = src \<or> fst e = p} = {(src, p), (p, g)}"
  shows "insert (p, g) (insert (src, p) {e \<in> E. fst e \<noteq> src \<and> fst e \<noteq> p}) = E"
proof -
  have 1: "(src, p) \<in> E" and 2: "(p, g) \<in> E"
    using H by blast+
  have 3: "(a, b) = (src, p) \<or> (a, b) = (p, g)" if "(a, b) \<in> E" "a = src \<or> a = p" for a b
  proof -
    from that have "(a, b) \<in> {e \<in> E. fst e = src \<or> fst e = p}" by simp
    then show ?thesis unfolding H by simp
  qed
  show ?thesis
  proof (rule set_eqI)
    fix e :: "'a \<times> 'a"
    obtain a b where e: "e = (a, b)" by (cases e)
    show "e \<in> insert (p, g) (insert (src, p) {e \<in> E. fst e \<noteq> src \<and> fst e \<noteq> p}) \<longleftrightarrow> e \<in> E"
      unfolding e using 1 2 3[of a b] by auto
  qed
qed

lemma out_edges_mono:
  fixes E :: "('a \<times> 'a) set"
  assumes H: "{e \<in> E. fst e = src \<or> fst e = p} = {(src, g)}"
  shows "insert (src, g) {e \<in> E. fst e \<noteq> src \<and> fst e \<noteq> p} = E"
proof -
  have 1: "(src, g) \<in> E"
    using H by blast
  have 3: "(a, b) = (src, g)" if "(a, b) \<in> E" "a = src \<or> a = p" for a b
  proof -
    from that have "(a, b) \<in> {e \<in> E. fst e = src \<or> fst e = p}" by simp
    then show ?thesis unfolding H by simp
  qed
  show ?thesis
  proof (rule set_eqI)
    fix e :: "'a \<times> 'a"
    obtain a b where e: "e = (a, b)" by (cases e)
    show "e \<in> insert (src, g) {e \<in> E. fst e \<noteq> src \<and> fst e \<noteq> p} \<longleftrightarrow> e \<in> E"
      unfolding e using 1 3[of a b] by auto
  qed
qed

text \<open>
  From a graph wired by its own flag, with that flag equal to the global one, two passes
  of toggle and switch restore the connections.
\<close>

lemma mode_round_trip:
  assumes w: "wired_by_flag s" and q: "spatialAudio (win s) = spatialAudio_local (this s)"
    and d: "spatialAudio (win s) \<noteq> None"
  shows "set (edges (win (state_of (update_mode
            ((state_of (update_mode (s\<lparr> win := toggleSpatialAudio (win s) \<rparr>)))
               \<lparr> win := toggleSpatialAudio
                   (win (state_of (update_mode (s\<lparr> win := toggleSpatialAudio (win s) \<rparr>)))) \<rparr>)))))
         = set (edges (win s))"
proof -
  from w obtain src p g where
    n: "source (this s) = Some src" "pannerNode (this s) = Some p" "gainNode (this s) = Some g"
       "src \<noteq> p"
    and e: "{e \<in> set (edges (win s)). fst e = src \<or> fst e = p}
              = (if spatialAudio_local (this s) = Some True then {(src, p), (p, g)} else {(src, g)})"
    by (auto simp add: wired_by_flag_def split: option.splits)
  let ?E = "set (edges (win s))"
  let ?t = "s\<lparr> win := toggleSpatialAudio (win s) \<rparr>"
  show ?thesis
  proof (cases "spatialAudio_local (this s) = Some True")
    case True
    let ?s1 = "?t\<lparr> win := (win ?t)\<lparr> edges := List.insert (src, g)
                     (filter (\<lambda>e. fst e \<noteq> p) (filter (\<lambda>e. fst e \<noteq> src) (edges (win ?t)))) \<rparr>,
                   this := (this ?t)\<lparr> spatialAudio_local := spatialAudio (win ?t) \<rparr> \<rparr>"
    have 1: "update_mode ?t = Done ?s1"
      using update_mode_switch_edges[of ?t src p g] n q True by simp
    let ?t1 = "?s1\<lparr> win := toggleSpatialAudio (win ?s1) \<rparr>"
    let ?s2 = "?t1\<lparr> win := (win ?t1)\<lparr> edges := List.insert (p, g) (List.insert (src, p)
                              (filter (\<lambda>e. fst e \<noteq> src) (edges (win ?t1)))) \<rparr>,
                   this := (this ?t1)\<lparr> spatialAudio_local := spatialAudio (win ?t1) \<rparr> \<rparr>"
    have 2: "update_mode ?t1 = Done ?s2"
      using update_mode_switch_edges[of ?t1 src p g] n q True by simp
    have "set (edges (win ?s2)) = insert (p, g) (insert (src, p) {e \<in> ?E. fst e \<noteq> src \<and> fst e \<noteq> p})"
      by auto
    also have "\<dots> = ?E"
      by (rule out_edges_spatial) (use e True in simp)
    finally show ?thesis
      unfolding 1 state_of.simps 2 .
  next
    case False
    with q d have f: "spatialAudio_local (this s) = Some False"
      by (cases "spatialAudio_local (this s)") auto
    let ?s1 = "?t\<lparr> win := (win ?t)\<lparr> edges := List.insert (p, g) (List.insert (src, p)
                              (filter (\<lambda>e. fst e \<noteq> src) (edges (win ?t)))) \<rparr>,
                   this := (this ?t)\<lparr> spatialAudio_local := spatialAudio (win ?t) \<rparr> \<rparr>"
    have 1: "update_mode ?t = Done ?s1"
      using update_mode_switch_edges[of ?t src p g] n q f by simp
    let ?t1 = "?s1\<lparr> win := toggleSpatialAudio (win ?s1) \<rparr>"
    let ?s2 = "?t1\<lparr> win := (win ?t1)\<lparr> edges := List.insert (src, g)
                     (filter (\<lambda>e. fst e \<noteq> p) (filter (\<lambda>e. fst e \<noteq> src) (edges (win ?t1)))) \<rparr>,
                   this := (this ?t1)\<lparr> spatialAudio_local := spatialAudio (win ?t1) \<rparr> \<rparr>"
    have 2: "update_mode ?t1 = Done ?s2"
      using update_mode_switch_edges[of ?t1 src p g] n q f by simp
    have "set (edges (win ?s2)) = insert (src, g) {e \<in> ?E. fst e \<noteq> src \<and> fst e \<noteq> p}"
      using n(4) by auto
    also have "\<dots> = ?E"
      by (rule out_edges_mono) (use e f in simp)
    finally show ?thesis
      unfolding 1 state_of.simps 2 .
  qed
qed

text \<open>
  The sample graph after its first pass is such a graph: wired by its flag, which equals
  the global one.
\<close>

lemma switched_once_a_wired:
  "wired_by_flag switched_once_a
   \<and> spatialAudio (win switched_once_a) = spatialAudio_local (this switched_once_a)
   \<and> spatialAudio (win switched_once_a) = Some True"
proof -
  have 1: "switched_once_a = \<lparr> win = (win mounted_a)\<lparr> spatialAudio := Some True, notifications := [''enabled''],
                                   edges := [(1, 3), (2, 0), (3, 2)] \<rparr>,
            this = (this mounted_a)\<lparr> spatialAudio_local := Some True \<rparr> \<rparr>"
    by (simp add: switched_once_a_def switched_once_a_eq)
  show ?thesis
    unfolding 1 by (auto simp add: wired_by_flag_def mounted_a_this)
qed

end
